theory Spec2Isabelle
  imports Main "HOL-Library.AList" "HOL-Library.Sublist"
begin

section \<open>Values, dictionaries and errors\<close>

text \<open>
  A cell of a record or of a tokenized batch: a string, an integer, Python's \<open>None\<close>,
  or a list of cells (a row of token ids).
\<close>

datatype val = S string | I int | N | L "val list"

text \<open>
  A Python \<open>dict\<close> is an association list with distinct keys in insertion order;
  \<open>d[k] = v\<close> is \<open>AList.update k v d\<close>, which overwrites in place or appends.
\<close>

type_synonym ('k, 'v) dict = "('k \<times> 'v) list"

type_synonym example = "(string, val) dict"

text \<open>A batch, and a \<open>Dataset\<close>, are columnar: column name to the list of its cells.\<close>

type_synonym batch = "(string, val list) dict"

datatype error =
    KeyError val
  | TypeError string
  | AttributeError string
  | ValueError string
  | FileNotFoundError string
  | IsADirectoryError string
  | DecodeError string
  | Exception string

fun mapM :: "('a \<Rightarrow> error + 'b) \<Rightarrow> 'a list \<Rightarrow> error + 'b list" where
  "mapM f [] = Inr []"
| "mapM f (x # xs) =
     (case f x of
        Inl e \<Rightarrow> Inl e
      | Inr y \<Rightarrow> (case mapM f xs of Inl e \<Rightarrow> Inl e | Inr ys \<Rightarrow> Inr (y # ys)))"

text \<open>\<open>d[k]\<close> on a record or a batch: \<open>KeyError\<close> when the key is absent.\<close>

definition getcol :: "(string, 'v) dict \<Rightarrow> string \<Rightarrow> error + 'v" where
  "getcol d k = (case map_of d k of None \<Rightarrow> Inl (KeyError (S k)) | Some v \<Rightarrow> Inr v)"

text \<open>\<open>{k: v for k, v in pairs}\<close>: later pairs overwrite earlier ones with the same key.\<close>

definition dict_of :: "('k \<times> 'v) list \<Rightarrow> ('k, 'v) dict" where
  "dict_of ps = fold (\<lambda>(k, v) d. AList.update k v d) ps []"

text \<open>\<open>{**a, **b}\<close>.\<close>

definition dict_merge :: "('k, 'v) dict \<Rightarrow> ('k, 'v) dict \<Rightarrow> ('k, 'v) dict" where
  "dict_merge a b = fold (\<lambda>(k, v) d. AList.update k v d) b a"

text \<open>Python's \<open>==\<close> on dicts ignores the insertion order.\<close>

definition dict_eq :: "('k, 'v) dict \<Rightarrow> ('k, 'v) dict \<Rightarrow> bool" where
  "dict_eq a b = (length a = length b \<and> list_all (\<lambda>(k, v). map_of b k = Some v) a)"

definition endswith :: "string \<Rightarrow> string \<Rightarrow> bool" where
  "endswith s suf = suffix suf s"

section \<open>The tokenizer, the model configuration and the fine-tuner object\<close>

datatype padding = PadFalse | PadMaxLength

text \<open>
  One call of the tokenizer: \<open>tokenizer(text, text_pair, padding=, truncation=, max_length=)\<close>.
  The tokenizer itself is external; it is a function from the call to a batch of columns
  (\<open>input_ids\<close>, \<open>attention_mask\<close>) or an error.
\<close>

record tok_call =
  text_arg :: "val list"
  text_pair_arg :: "val list option"
  padding_arg :: padding
  truncation_arg :: bool
  max_length_arg :: "nat option"

type_synonym tokenizer = "tok_call \<Rightarrow> error + batch"

record config =
  label2id :: "(val, nat) dict"
  id2label :: "(nat, val) dict"

text \<open>
  The fine-tuner object \<open>self\<close> and the part of the world that \<open>load_dataset\<close> touches:
  \<open>opened\<close> logs every directory entry that per-file decoding read, in order, and
  \<open>handles\<close> lists the file handles and database connections that are open.
  \<open>data_collator\<close> is \<open>None\<close> until set, then holds the tokenizer it was built with.
  \<open>model\<close> is the model's \<open>config\<close>, or \<open>None\<close> without a model.
\<close>

record tuner =
  tokenizer :: "tokenizer option"
  model :: "config option"
  label_to_id :: "(val, nat) dict option"
  data_collator :: "tokenizer option option"
  warnings :: "string list"
  opened :: "string list"
  handles :: "string list"

section \<open>The file system and the external decoders\<close>

datatype node = File string | Dir

text \<open>
  A directory in \<open>os.listdir\<close> order; an entry is named by its file name, which stands
  for \<open>os.path.join(dataset_path, filename)\<close>. The path \<open>dataset_path\<close> is the directory
  it names, or \<open>None\<close> when nothing is there.
\<close>

type_synonym directory = "(string \<times> node) list"

datatype xml = Elem (tag: string) (text_of: "string option") (children: "xml list")

text \<open>
  The decoders of json, yaml, pandas, pyarrow, sqlite3, ElementTree and datasets are
  external: they are parameters. A table reader stands for the reader followed by
  \<open>to_dict("records")\<close>; \<open>json_load\<close> and \<open>yaml_safe_load\<close> are taken to yield a list of
  records. \<open>py_int\<close> is Python's \<open>int\<close> on a string. \<open>from_pandas\<close> stands for
  \<open>Dataset.from_pandas(pd.DataFrame(data))\<close>, which raises on a column it cannot type;
  \<open>arrow_write\<close> is the writer of \<open>Dataset.map\<close>, which stores a batch of cells or raises.
\<close>

record lib =
  json_loads :: "string \<Rightarrow> error + example"
  json_load :: "string \<Rightarrow> error + example list"
  yaml_safe_load :: "string \<Rightarrow> error + example list"
  read_csv :: "string \<Rightarrow> node \<Rightarrow> error + example list"
  read_parquet :: "node \<Rightarrow> error + example list"
  read_excel :: "node \<Rightarrow> error + example list"
  read_feather :: "node \<Rightarrow> error + example list"
  sqlite3_connect :: "node \<Rightarrow> error + string"
  read_sql_query :: "string \<Rightarrow> string \<Rightarrow> error + example list"
  ET_parse :: "node \<Rightarrow> error + xml"
  py_int :: "string \<Rightarrow> error + int"
  load_from_disk :: "directory \<Rightarrow> error + batch"
  from_pandas :: "example list \<Rightarrow> error + batch"
  arrow_write :: "batch \<Rightarrow> error + batch"

definition isfile :: "directory option \<Rightarrow> string \<Rightarrow> bool" where
  "isfile dp name =
     (case dp of
        None \<Rightarrow> False
      | Some d \<Rightarrow> (case map_of d name of Some (File c) \<Rightarrow> True | _ \<Rightarrow> False))"

definition listdir :: "directory option \<Rightarrow> error + directory" where
  "listdir dp = (case dp of None \<Rightarrow> Inl (FileNotFoundError ''dataset_path'') | Some d \<Rightarrow> Inr d)"

text \<open>
  A file opened with \<open>open(filepath, "r")\<close> is read with universal newlines: a carriage
  return, alone or followed by a line feed, is read as one line feed.
\<close>

fun universal_newlines :: "string \<Rightarrow> string" where
  "universal_newlines [] = []"
| "universal_newlines [c] = [if c = CHR 0x0D then CHR 0x0A else c]"
| "universal_newlines (c # d # cs) =
     (if c = CHR 0x0D then
        (if d = CHR 0x0A then CHR 0x0A # universal_newlines cs
         else CHR 0x0A # universal_newlines (d # cs))
      else c # universal_newlines (d # cs))"

text \<open>Iterating over an open text file: the lines, each with its newline.\<close>

fun file_lines :: "string \<Rightarrow> string list" where
  "file_lines [] = []"
| "file_lines (c # cs) =
     (if c = CHR 0x0A then [c] # file_lines cs
      else (case file_lines cs of [] \<Rightarrow> [[c]] | l # ls \<Rightarrow> (c # l) # ls))"

text \<open>
  \<open>with open(filepath, "r") as f: body\<close>: the handle is open during the body and closed
  when the block is left, also by an exception. The body reads the text of the file.
\<close>

definition with_open ::
  "string \<Rightarrow> node \<Rightarrow> (string \<Rightarrow> error + 'a) \<Rightarrow> tuner \<Rightarrow> (error + 'a) \<times> tuner" where
  "with_open filepath nd body s =
     (case nd of
        Dir \<Rightarrow> (Inl (IsADirectoryError filepath), s)
      | File c \<Rightarrow>
          (let s1 = s\<lparr>opened := opened s @ [filepath], handles := filepath # handles s\<rparr>;
               r = body (universal_newlines c)
           in (r, s1\<lparr>handles := remove1 filepath (handles s1)\<rparr>)))"

text \<open>A library reader is handed the path; it opens and closes the file itself.\<close>

definition reading :: "string \<Rightarrow> tuner \<Rightarrow> tuner" where
  "reading filepath s = s\<lparr>opened := opened s @ [filepath]\<rparr>"

definition find_child :: "xml \<Rightarrow> string \<Rightarrow> xml option" where
  "find_child e t = find (\<lambda>c. tag c = t) (children e)"

definition findall :: "xml \<Rightarrow> string \<Rightarrow> xml list" where
  "findall e t = filter (\<lambda>c. tag c = t) (children e)"

text \<open>\<open>record.find(t).text\<close>: \<open>find\<close> gives \<open>None\<close> for a missing child, whose \<open>.text\<close> raises.\<close>

definition find_text :: "xml \<Rightarrow> string \<Rightarrow> error + string option" where
  "find_text e t =
     (case find_child e t of
        None \<Rightarrow> Inl (AttributeError ''NoneType object has no attribute text'')
      | Some c \<Rightarrow> Inr (text_of c))"

definition opt_val :: "string option \<Rightarrow> val" where
  "opt_val t = (case t of None \<Rightarrow> N | Some x \<Rightarrow> S x)"

section \<open>Per-file decoding\<close>

datatype task = Classification | CommonsenseReasoning

text \<open>The body of the loop over \<open>root.findall("record")\<close>, in each of the two loaders.\<close>

definition xml_record :: "lib \<Rightarrow> task \<Rightarrow> xml \<Rightarrow> error + example" where
  "xml_record lb t r =
     (case t of
        Classification \<Rightarrow>
          (case find_text r ''text'' of
             Inl e \<Rightarrow> Inl e
           | Inr txt \<Rightarrow>
               (case find_text r ''label'' of
                  Inl e \<Rightarrow> Inl e
                | Inr lbl \<Rightarrow> Inr [(''text'', opt_val txt), (''label'', opt_val lbl)]))
      | CommonsenseReasoning \<Rightarrow>
          (case find_text r ''premise'' of
             Inl e \<Rightarrow> Inl e
           | Inr p \<Rightarrow>
               (case find_text r ''hypothesis'' of
                  Inl e \<Rightarrow> Inl e
                | Inr h \<Rightarrow>
                    (case find_text r ''label'' of
                       Inl e \<Rightarrow> Inl e
                     | Inr None \<Rightarrow> Inl (TypeError ''int() argument must be a string'')
                     | Inr (Some l) \<Rightarrow>
                         (case py_int lb l of
                            Inl e \<Rightarrow> Inl e
                          | Inr n \<Rightarrow>
                              Inr [(''premise'', opt_val p), (''hypothesis'', opt_val h),
                                   (''label'', I n)])))))"

definition query :: "task \<Rightarrow> string" where
  "query t =
     (case t of
        Classification \<Rightarrow> ''SELECT text, label FROM dataset_table;''
      | CommonsenseReasoning \<Rightarrow> ''SELECT premise, hypothesis, label FROM dataset_table;'')"

text \<open>
  One round of the loop \<open>for filename in os.listdir(dataset_path)\<close>: the records the
  file yields. The two loaders have the same chain of \<open>if\<close>/\<open>elif\<close> in the same order;
  they differ in the XML record and in the query, which depend on the task. The sqlite3
  connection is opened and nothing closes it.
\<close>

definition decode_file ::
  "lib \<Rightarrow> task \<Rightarrow> string \<Rightarrow> node \<Rightarrow> tuner \<Rightarrow> (error + example list) \<times> tuner" where
  "decode_file lb t filename nd s =
     (if endswith filename ''.jsonl'' then
        with_open filename nd (\<lambda>c. mapM (json_loads lb) (file_lines c)) s
      else if endswith filename ''.csv'' then
        (read_csv lb '','' nd, reading filename s)
      else if endswith filename ''.parquet'' then
        (read_parquet lb nd, reading filename s)
      else if endswith filename ''.json'' then
        with_open filename nd (json_load lb) s
      else if endswith filename ''.xml'' then
        (case ET_parse lb nd of
           Inl e \<Rightarrow> (Inl e, reading filename s)
         | Inr root \<Rightarrow> (mapM (xml_record lb t) (findall root ''record''), reading filename s))
      else if endswith filename ''.yaml'' \<or> endswith filename ''.yml'' then
        with_open filename nd (yaml_safe_load lb) s
      else if endswith filename ''.tsv'' then
        (read_csv lb [CHR 0x09] nd, reading filename s)
      else if endswith filename ''.xls'' \<or> endswith filename ''.xlsx'' then
        (read_excel lb nd, reading filename s)
      else if endswith filename ''.db'' then
        (case sqlite3_connect lb nd of
           Inl e \<Rightarrow> (Inl e, reading filename s)
         | Inr conn \<Rightarrow>
             (read_sql_query lb (query t) conn,
              (reading filename s)\<lparr>handles := filename # handles s\<rparr>))
      else if endswith filename ''.feather'' then
        (read_feather lb nd, reading filename s)
      else (Inr [], s))"

text \<open>The loop: \<open>data\<close> grows file by file; the first error leaves the loop.\<close>

fun read_files ::
  "lib \<Rightarrow> task \<Rightarrow> directory \<Rightarrow> example list \<Rightarrow> tuner \<Rightarrow> (error + example list) \<times> tuner" where
  "read_files lb t [] data s = (Inr data, s)"
| "read_files lb t ((filename, nd) # rest) data s =
     (case decode_file lb t filename nd s of
        (Inl e, s') \<Rightarrow> (Inl e, s')
      | (Inr recs, s') \<Rightarrow> read_files lb t rest (data @ recs) s')"

section \<open>Datasets\<close>

definition nrows :: "batch \<Rightarrow> nat" where
  "nrows b = (case b of [] \<Rightarrow> 0 | (k, vs) # rest \<Rightarrow> length vs)"

definition slice :: "nat \<Rightarrow> nat \<Rightarrow> batch \<Rightarrow> batch" where
  "slice i n b = map (\<lambda>(k, vs). (k, take n (drop i vs))) b"

definition batches :: "nat \<Rightarrow> batch \<Rightarrow> batch list" where
  "batches n ds = map (\<lambda>j. slice (j * n) n ds) [0..<(nrows ds + n - 1) div n]"

definition remove_columns :: "string list \<Rightarrow> batch \<Rightarrow> batch" where
  "remove_columns cols b = filter (\<lambda>(k, vs). k \<notin> set cols) b"

fun concat_batches :: "batch list \<Rightarrow> batch" where
  "concat_batches [] = []"
| "concat_batches [b] = b"
| "concat_batches (b # bs) =
     map (\<lambda>(k, vs). (k, vs @ (case map_of (concat_batches bs) k of None \<Rightarrow> [] | Some ws \<Rightarrow> ws))) b"

text \<open>
  \<open>Dataset.map(function, batched=True, remove_columns=cols)\<close> with the default batch
  size of 1000: an empty dataset is returned without calling the function; otherwise
  the function runs on each batch, its output is merged over the batch's remaining
  columns and handed to the writer, and the first error ends the map. How the writer
  types and stores the cells is the library's business: it is the parameter
  \<open>arrow_write\<close>.
\<close>

definition map_batched ::
  "lib \<Rightarrow> (batch \<Rightarrow> error + batch) \<Rightarrow> string list \<Rightarrow> batch \<Rightarrow> error + batch" where
  "map_batched lb f cols ds =
     (if nrows ds = 0 then Inr (remove_columns cols ds)
      else
        (case mapM (\<lambda>b. case f b of
                          Inl e \<Rightarrow> Inl e
                        | Inr out \<Rightarrow> arrow_write lb (dict_merge (remove_columns cols b) out))
                   (batches 1000 ds) of
           Inl e \<Rightarrow> Inl e
         | Inr bs \<Rightarrow> Inr (concat_batches bs)))"

section \<open>Classification\<close>

text \<open>\<open>self.label_to_id[label]\<close>: subscripting \<open>None\<close> raises, a missing key raises.\<close>

definition label_getitem :: "(val, nat) dict option \<Rightarrow> val \<Rightarrow> error + nat" where
  "label_getitem l2i label =
     (case l2i of
        None \<Rightarrow> Inl (TypeError ''NoneType object is not subscriptable'')
      | Some d \<Rightarrow> (case map_of d label of None \<Rightarrow> Inl (KeyError label) | Some i \<Rightarrow> Inr i))"

text \<open>
  The closure \<open>tokenize_function\<close>; it reads \<open>self.tokenizer\<close> and \<open>self.label_to_id\<close> when
  it is called.
\<close>

definition tokenize_function :: "tuner \<Rightarrow> batch \<Rightarrow> error + batch" where
  "tokenize_function s examples =
     (case getcol examples ''text'' of
        Inl e \<Rightarrow> Inl e
      | Inr texts \<Rightarrow>
          (case tokenizer s of
             None \<Rightarrow> Inl (TypeError ''NoneType object is not callable'')
           | Some tk \<Rightarrow>
               (case tk \<lparr>text_arg = texts, text_pair_arg = None, padding_arg = PadMaxLength,
                         truncation_arg = True, max_length_arg = Some 512\<rparr> of
                  Inl e \<Rightarrow> Inl e
                | Inr tokenized_data \<Rightarrow>
                    (case getcol examples ''label'' of
                       Inl e \<Rightarrow> Inl e
                     | Inr labels \<Rightarrow>
                         (case mapM (label_getitem (label_to_id s)) labels of
                            Inl e \<Rightarrow> Inl e
                          | Inr ids \<Rightarrow>
                              Inr (AList.update ''label'' (map (\<lambda>i. I (int i)) ids)
                                     tokenized_data))))))"

text \<open>
  \<open>{label: i for i, label in enumerate(unique_labels)}\<close>, where \<open>unique_labels\<close> is the
  generator \<open>(example["label"] for example in data)\<close>.
\<close>

definition build_label_to_id :: "val list \<Rightarrow> (val, nat) dict" where
  "build_label_to_id unique_labels = dict_of (map (\<lambda>(i, label). (label, i)) (enumerate 0 unique_labels))"

text \<open>\<open>{i: label for label, i in self.label_to_id.items()}\<close>.\<close>

definition build_id2label :: "(val, nat) dict \<Rightarrow> (nat, val) dict" where
  "build_id2label l2i = dict_of (map (\<lambda>(label, i). (i, label)) l2i)"

definition initial_label_to_id :: "tuner \<Rightarrow> (val, nat) dict option" where
  "initial_label_to_id s =
     (case model s of
        None \<Rightarrow> None
      | Some cfg \<Rightarrow> (if label2id cfg \<noteq> [] then Some (label2id cfg) else None))"

text \<open>The block after the loop: derive the label index and store it on the model.\<close>

definition store_labels :: "(val, nat) dict \<Rightarrow> tuner \<Rightarrow> tuner" where
  "store_labels l2i s =
     (let s1 = s\<lparr>label_to_id := Some l2i\<rparr>
      in (case model s1 of
            None \<Rightarrow> s1
          | Some cfg \<Rightarrow>
              (let s2 = (if \<not> dict_eq (label2id cfg) l2i
                         then s1\<lparr>warnings := warnings s1 @ [''New labels detected, ignore if fine-tuning'']\<rparr>
                         else s1)
               in s2\<lparr>model := Some (cfg\<lparr>label2id := l2i, id2label := build_id2label l2i\<rparr>)\<rparr>)))"

text \<open>
  One step of the generator inside the comprehension: \<open>example["label"]\<close> raises on a
  record without the key, and a list cannot be a dictionary key.
\<close>

definition hashable :: "val \<Rightarrow> bool" where
  "hashable v = (case v of L xs \<Rightarrow> False | _ \<Rightarrow> True)"

definition label_key :: "example \<Rightarrow> error + val" where
  "label_key example =
     (case getcol example ''label'' of
        Inl e \<Rightarrow> Inl e
      | Inr label \<Rightarrow>
          (if hashable label then Inr label else Inl (TypeError ''unhashable type: list'')))"

text \<open>
  \<open>HuggingFaceClassificationFineTuner.load_dataset\<close>. The \<open>except\<close> clause logs and
  re-raises, so an error leaves as it came; the state holds what was assigned before.
\<close>

definition load_dataset :: "lib \<Rightarrow> directory option \<Rightarrow> tuner \<Rightarrow> (error + batch) \<times> tuner" where
  "load_dataset lb dataset_path s0 =
     (let s1 = s0\<lparr>data_collator := Some (tokenizer s0)\<rparr>;
          s2 = s1\<lparr>label_to_id := initial_label_to_id s1\<rparr>
      in if isfile dataset_path ''dataset_info.json'' then
           (case load_from_disk lb (the dataset_path) of
              Inl e \<Rightarrow> (Inl e, s2)
            | Inr ds \<Rightarrow> (map_batched lb (tokenize_function s2) [] ds, s2))
         else
           (case listdir dataset_path of
              Inl e \<Rightarrow> (Inl e, s2)
            | Inr entries \<Rightarrow>
                (case read_files lb Classification entries [] s2 of
                   (Inl e, s3) \<Rightarrow> (Inl e, s3)
                 | (Inr data, s3) \<Rightarrow>
                     (case mapM label_key data of
                        Inl e \<Rightarrow> (Inl e, s3)
                      | Inr unique_labels \<Rightarrow>
                          (let s4 = store_labels (build_label_to_id unique_labels) s3
                           in (case from_pandas lb data of
                                 Inl e \<Rightarrow> (Inl e, s4)
                               | Inr ds \<Rightarrow> (map_batched lb (tokenize_function s4) [] ds, s4)))))))"

section \<open>Commonsense reasoning\<close>

definition prepare_train_features :: "tuner \<Rightarrow> batch \<Rightarrow> error + batch" where
  "prepare_train_features s examples =
     (case tokenizer s of
        None \<Rightarrow> Inl (Exception ''Tokenizer not initialized'')
      | Some tk \<Rightarrow>
          (case getcol examples ''premise'' of
             Inl e \<Rightarrow> Inl e
           | Inr premises \<Rightarrow>
               (case getcol examples ''hypothesis'' of
                  Inl e \<Rightarrow> Inl e
                | Inr hypotheses \<Rightarrow>
                    (case tk \<lparr>text_arg = premises, text_pair_arg = Some hypotheses,
                              padding_arg = PadFalse, truncation_arg = True,
                              max_length_arg = None\<rparr> of
                       Inl e \<Rightarrow> Inl e
                     | Inr tokenized_inputs \<Rightarrow>
                         (case getcol examples ''label'' of
                            Inl e \<Rightarrow> Inl e
                          | Inr labels \<Rightarrow> Inr (AList.update ''labels'' labels tokenized_inputs))))))"

text \<open>\<open>HuggingFaceCommonsenseReasoningFineTuner.load_dataset\<close>.\<close>

definition load_dataset_cr :: "lib \<Rightarrow> directory option \<Rightarrow> tuner \<Rightarrow> (error + batch) \<times> tuner" where
  "load_dataset_cr lb dataset_path s =
     (if isfile dataset_path ''dataset_info.json'' then
        (case load_from_disk lb (the dataset_path) of
           Inl e \<Rightarrow> (Inl e, s)
         | Inr dataset \<Rightarrow>
             (map_batched lb (prepare_train_features s) (map fst dataset) dataset, s))
      else
        (case listdir dataset_path of
           Inl e \<Rightarrow> (Inl e, s)
         | Inr entries \<Rightarrow>
             (case read_files lb CommonsenseReasoning entries [] s of
                (Inl e, s') \<Rightarrow> (Inl e, s')
              | (Inr data, s') \<Rightarrow>
                  (case from_pandas lb data of
                     Inl e \<Rightarrow> (Inl e, s')
                   | Inr dataset \<Rightarrow>
                       (map_batched lb (prepare_train_features s') (map fst dataset) dataset,
                        s')))))"

section \<open>Both loaders, and the extensions the specification names\<close>

definition load_for ::
  "task \<Rightarrow> lib \<Rightarrow> directory option \<Rightarrow> tuner \<Rightarrow> (error + batch) \<times> tuner" where
  "load_for t =
     (case t of Classification \<Rightarrow> load_dataset | CommonsenseReasoning \<Rightarrow> load_dataset_cr)"

text \<open>
  The list of recognized extensions as the specification writes it; it is compared with
  the chain of tests in \<open>decode_file\<close>.
\<close>

definition recognized_extensions :: "string list" where
  "recognized_extensions =
     [''.jsonl'', ''.json'', ''.csv'', ''.tsv'', ''.parquet'', ''.feather'', ''.xls'', ''.xlsx'',
      ''.xml'', ''.yaml'', ''.yml'', ''.db'']"

definition recognized :: "string \<Rightarrow> bool" where
  "recognized filename = list_ex (endswith filename) recognized_extensions"

section \<open>A small library and fine-tuner for the examples\<close>

text \<open>
  Stand-ins for the external parts, used only to run the loaders on concrete
  directories: a line decoder that reads \<open>text|label\<close>, table and document decoders
  that reject every file, a database whose query fails on an empty file and gives one
  row otherwise, and a tokenizer whose token ids are the character codes of the text
  followed by those of its pair, cut and padded as the call asks.
\<close>

definition demo_json_loads :: "string \<Rightarrow> error + example" where
  "demo_json_loads line =
     (let body = filter (\<lambda>c. c \<noteq> CHR 0x0A) line
      in if CHR ''|'' \<in> set body
         then Inr [(''text'', S (takeWhile (\<lambda>c. c \<noteq> CHR ''|'') body)),
                   (''label'', S (tl (dropWhile (\<lambda>c. c \<noteq> CHR ''|'') body)))]
         else Inl (DecodeError ''JSONDecodeError''))"

definition demo_ids :: "val \<Rightarrow> val list" where
  "demo_ids v = (case v of S str \<Rightarrow> map (\<lambda>ch. I (of_char ch)) str | _ \<Rightarrow> [])"

definition demo_fit :: "tok_call \<Rightarrow> val list \<Rightarrow> val list" where
  "demo_fit c ids =
     (let cut = (case max_length_arg c of
                   Some n \<Rightarrow> (if truncation_arg c then take n ids else ids)
                 | None \<Rightarrow> ids)
      in case (padding_arg c, max_length_arg c) of
           (PadMaxLength, Some n) \<Rightarrow> cut @ replicate (n - length cut) (I 0)
         | _ \<Rightarrow> cut)"

definition demo_tokenizer :: tokenizer where
  "demo_tokenizer c =
     Inr [(''input_ids'',
           map (\<lambda>ids. L (demo_fit c ids))
               (case text_pair_arg c of
                  None \<Rightarrow> map demo_ids (text_arg c)
                | Some pairs \<Rightarrow> map (\<lambda>(a, b). demo_ids a @ demo_ids b) (zip (text_arg c) pairs)))]"

text \<open>
  The conversion of the examples: the columns are the keys of the records in first-seen
  order, a record without a key has a null cell there, and a column that mixes strings,
  integers and lists is refused. The writer of the examples stores the cells as they are.
\<close>

definition from_records :: "example list \<Rightarrow> batch" where
  "from_records data =
     map (\<lambda>c. (c, map (\<lambda>r. case map_of r c of None \<Rightarrow> N | Some v \<Rightarrow> v) data))
         (rev (remdups (rev (concat (map (map fst) data)))))"

definition uniform :: "val list \<Rightarrow> bool" where
  "uniform col =
     (list_all (\<lambda>v. case v of S x \<Rightarrow> True | N \<Rightarrow> True | _ \<Rightarrow> False) col
      \<or> list_all (\<lambda>v. case v of I x \<Rightarrow> True | N \<Rightarrow> True | _ \<Rightarrow> False) col
      \<or> list_all (\<lambda>v. case v of L x \<Rightarrow> True | N \<Rightarrow> True | _ \<Rightarrow> False) col)"

definition demo_from_pandas :: "example list \<Rightarrow> error + batch" where
  "demo_from_pandas data =
     (if list_all (\<lambda>(k, col). uniform col) (from_records data)
      then Inr (from_records data)
      else Inl (DecodeError ''ArrowInvalid''))"

definition demo_lib :: lib where
  "demo_lib =
     \<lparr>json_loads = demo_json_loads,
      json_load = (\<lambda>c. Inl (DecodeError ''JSONDecodeError'')),
      yaml_safe_load = (\<lambda>c. Inl (DecodeError ''YAMLError'')),
      read_csv = (\<lambda>sep nd. Inl (DecodeError ''ParserError'')),
      read_parquet = (\<lambda>nd. Inl (DecodeError ''ArrowInvalid'')),
      read_excel = (\<lambda>nd. Inl (DecodeError ''ValueError'')),
      read_feather = (\<lambda>nd. Inl (DecodeError ''ArrowInvalid'')),
      sqlite3_connect =
        (\<lambda>nd. case nd of File c \<Rightarrow> Inr c | Dir \<Rightarrow> Inl (DecodeError ''OperationalError'')),
      read_sql_query =
        (\<lambda>q conn. if conn = [] then Inl (DecodeError ''DatabaseError'')
                  else Inr [[(''text'', S ''ok''), (''label'', S ''pos'')]]),
      ET_parse = (\<lambda>nd. Inl (DecodeError ''ParseError'')),
      py_int = (\<lambda>str. Inl (ValueError ''invalid literal for int()'')),
      load_from_disk = (\<lambda>d. Inr [(''text'', [S ''ok'']), (''label'', [S ''pos''])]),
      from_pandas = demo_from_pandas,
      arrow_write = Inr\<rparr>"

definition demo_tuner :: tuner where
  "demo_tuner =
     \<lparr>tokenizer = Some demo_tokenizer,
      model = Some \<lparr>label2id = [(S ''pos'', 0)], id2label = [(0, S ''pos'')]\<rparr>,
      label_to_id = None, data_collator = None, warnings = [], opened = [], handles = []\<rparr>"

section \<open>Dictionaries built by comprehension\<close>

lemma map_of_fold_update:
  "map_of (fold (\<lambda>(k, v) d. AList.update k v d) ps d) = (map_of d) ++ map_of (rev ps)"
proof (induction ps arbitrary: d)
  case Nil
  show ?case by simp
next
  case (Cons p ps)
  obtain k v where p: "p = (k, v)" by (cases p)
  show ?case
    by (simp add: p Cons.IH update_conv' map_add_upd_left map_add_def fun_eq_iff
          split: option.splits)
qed

lemma map_of_dict_of: "map_of (dict_of ps) = map_of (rev ps)"
  by (simp add: dict_of_def map_of_fold_update)

lemma distinct_fold_update:
  "distinct (map fst d) \<Longrightarrow> distinct (map fst (fold (\<lambda>(k, v) d. AList.update k v d) ps d))"
  by (induction ps arbitrary: d) (auto simp: distinct_update)

lemma distinct_dict_of: "distinct (map fst (dict_of ps))"
  by (simp add: dict_of_def distinct_fold_update)

lemma distinct_keys_label_to_id: "distinct (map fst (build_label_to_id ls))"
  by (simp add: build_label_to_id_def distinct_dict_of)

text \<open>An id in the label index is a position of its label in the sequence of labels.\<close>

lemma label_to_id_Some:
  assumes "map_of (build_label_to_id ls) l = Some i"
  shows "i < length ls \<and> ls ! i = l"
proof -
  from assms have "map_of (rev (map (\<lambda>(i, label). (label, i)) (enumerate 0 ls))) l = Some i"
    by (simp add: build_label_to_id_def map_of_dict_of)
  then have "(l, i) \<in> set (map (\<lambda>(i, label). (label, i)) (enumerate 0 ls))"
    using map_of_SomeD by fastforce
  then have "(i, l) \<in> set (enumerate 0 ls)" by auto
  then show ?thesis by (simp add: in_set_enumerate_eq)
qed

lemma label_to_id_inj:
  assumes "map_of (build_label_to_id ls) l = Some i"
    and "map_of (build_label_to_id ls) l' = Some i"
  shows "l' = l"
  using label_to_id_Some[OF assms(1)] label_to_id_Some[OF assms(2)] by simp

lemma id2label_inverse:
  assumes "map_of (build_label_to_id ls) l = Some i"
  shows "map_of (build_id2label (build_label_to_id ls)) i = Some l"
proof -
  let ?d = "build_label_to_id ls"
  let ?ps = "rev (map (\<lambda>(label, i). (i, label)) ?d)"
  have dd: "distinct (map fst ?d)" by (rule distinct_keys_label_to_id)
  have mem: "(l, i) \<in> set ?d" using assms by (rule map_of_SomeD)
  have "inj_on snd (set ?d)"
  proof (rule inj_onI)
    fix p q assume p: "p \<in> set ?d" and q: "q \<in> set ?d" and e: "snd p = snd q"
    have mp: "map_of ?d (fst p) = Some (snd p)" using p by (simp add: map_of_eq_Some_iff[OF dd])
    have mq: "map_of ?d (fst q) = Some (snd q)" using q by (simp add: map_of_eq_Some_iff[OF dd])
    have "fst q = fst p" using label_to_id_inj[OF mp, of "fst q"] mq e by simp
    with e show "p = q" by (simp add: prod_eq_iff)
  qed
  moreover have "distinct ?d" using dd by (simp add: distinct_map)
  ultimately have "distinct (map snd ?d)" by (simp add: distinct_map)
  moreover have "map fst ?ps = rev (map snd ?d)"
    by (simp add: rev_map comp_def case_prod_unfold)
  ultimately have "distinct (map fst ?ps)" by simp
  moreover have "(i, l) \<in> set ?ps" using mem by force
  ultimately have "map_of ?ps i = Some l" by simp
  then show ?thesis by (simp add: build_id2label_def map_of_dict_of)
qed

text \<open>The label index on the labels \<open>pos\<close>, \<open>neg\<close>, \<open>pos\<close>.\<close>

lemma label_to_id_repeated:
  "build_label_to_id [S ''pos'', S ''neg'', S ''pos''] = [(S ''pos'', 2), (S ''neg'', 1)]"
  by (simp add: build_label_to_id_def dict_of_def enumerate_eq_zip)

lemma id2label_repeated:
  "build_id2label [(S ''pos'', 2), (S ''neg'', 1)] = [(2, S ''pos''), (1, S ''neg'')]"
  by (simp add: build_id2label_def dict_of_def)

section \<open>Per-file decoding: what a round of the loop changes\<close>

lemma with_open_fst: "fst (with_open p nd body s) = fst (with_open p nd body s')"
  by (simp add: with_open_def Let_def split: node.splits)

lemma with_open_model: "model (snd (with_open p nd body s)) = model s"
  by (simp add: with_open_def Let_def split: node.splits)

text \<open>The records a file yields do not depend on the fine-tuner's state.\<close>

lemma decode_file_fst: "fst (decode_file lb t fn nd s) = fst (decode_file lb t fn nd s')"
  by (simp add: decode_file_def with_open_fst[of _ _ _ s s'] split: sum.splits)

lemma decode_file_model: "model (snd (decode_file lb t fn nd s)) = model s"
  by (simp add: decode_file_def with_open_model reading_def split: sum.splits)

lemma read_files_model: "model (snd (read_files lb t entries data s)) = model s"
proof (induction entries arbitrary: data s)
  case Nil
  show ?case by simp
next
  case (Cons x entries)
  obtain fn nd where x: "x = (fn, nd)" by (cases x)
  obtain r s' where d: "decode_file lb t fn nd s = (r, s')"
    by (cases "decode_file lb t fn nd s")
  have m: "model s' = model s" using decode_file_model[of lb t fn nd s] d by simp
  show ?case
    by (cases r) (simp_all add: x d m Cons.IH)
qed

lemma read_files_first_error:
  assumes "\<forall>(f, n) \<in> set pre. \<not> isl (fst (decode_file lb t f n s0))"
    and "fst (decode_file lb t fn nd s0) = Inl e"
  shows "fst (read_files lb t (pre @ (fn, nd) # post) data s) = Inl e"
  using assms(1)
proof (induction pre arbitrary: data s)
  case Nil
  obtain r s' where d: "decode_file lb t fn nd s = (r, s')"
    by (cases "decode_file lb t fn nd s")
  have "r = Inl e" using decode_file_fst[of lb t fn nd s s0] d assms(2) by simp
  then show ?case by (simp add: d)
next
  case (Cons x pre)
  obtain f n where x: "x = (f, n)" by (cases x)
  obtain r s' where d: "decode_file lb t f n s = (r, s')"
    by (cases "decode_file lb t f n s")
  have "\<not> isl (fst (decode_file lb t f n s0))" using Cons.prems by (simp add: x)
  then have "\<not> isl r" using decode_file_fst[of lb t f n s s0] d by simp
  then obtain recs where r: "r = Inr recs" by (cases r) simp_all
  have "\<forall>(f, n) \<in> set pre. \<not> isl (fst (decode_file lb t f n s0))" using Cons.prems by simp
  from Cons.IH[OF this] show ?case by (simp add: x d r)
qed

lemma load_dataset_decode_error:
  assumes "\<not> isfile (Some entries) ''dataset_info.json''"
    and "fst (read_files lb Classification entries [] s2) = Inl e"
    and "model s2 = model s0"
    and "s2 = (s0\<lparr>data_collator := Some (tokenizer s0)\<rparr>)
                \<lparr>label_to_id := initial_label_to_id (s0\<lparr>data_collator := Some (tokenizer s0)\<rparr>)\<rparr>"
  shows "fst (load_dataset lb (Some entries) s0) = Inl e
       \<and> model (snd (load_dataset lb (Some entries) s0)) = model s0"
proof -
  obtain r s3 where rf: "read_files lb Classification entries [] s2 = (r, s3)"
    by (cases "read_files lb Classification entries [] s2")
  have r: "r = Inl e" using assms(2) rf by simp
  have m: "model s3 = model s0"
    using read_files_model[of lb Classification entries "[]" s2] rf assms(3) by simp
  show ?thesis
    using assms(1) rf[unfolded assms(4)] r m
    by (simp add: load_dataset_def Let_def listdir_def)
qed

lemma load_dataset_cr_decode_error:
  assumes "\<not> isfile (Some entries) ''dataset_info.json''"
    and "fst (read_files lb CommonsenseReasoning entries [] s0) = Inl e"
  shows "fst (load_dataset_cr lb (Some entries) s0) = Inl e
       \<and> model (snd (load_dataset_cr lb (Some entries) s0)) = model s0"
proof -
  obtain r s3 where rf: "read_files lb CommonsenseReasoning entries [] s0 = (r, s3)"
    by (cases "read_files lb CommonsenseReasoning entries [] s0")
  have r: "r = Inl e" using assms(2) rf by simp
  have m: "model s3 = model s0"
    using read_files_model[of lb CommonsenseReasoning entries "[]" s0] rf by simp
  show ?thesis
    using assms(1) rf r m
    by (simp add: load_dataset_cr_def Let_def listdir_def)
qed

section \<open>The snapshot path and skipped entries\<close>

lemma initial_label_to_id_collator [simp]:
  "initial_label_to_id (s\<lparr>data_collator := x\<rparr>) = initial_label_to_id s"
  by (simp add: initial_label_to_id_def)

lemma load_dataset_snapshot:
  assumes "isfile dp ''dataset_info.json''"
  shows "load_dataset lb dp s0 =
     (let s2 = s0\<lparr>data_collator := Some (tokenizer s0), label_to_id := initial_label_to_id s0\<rparr>
      in case load_from_disk lb (the dp) of
           Inl e \<Rightarrow> (Inl e, s2)
         | Inr ds \<Rightarrow> (map_batched lb (tokenize_function s2) [] ds, s2))"
  using assms by (simp add: load_dataset_def Let_def split: sum.splits)

lemma load_dataset_cr_snapshot:
  assumes "isfile dp ''dataset_info.json''"
  shows "load_dataset_cr lb dp s =
     (case load_from_disk lb (the dp) of
        Inl e \<Rightarrow> (Inl e, s)
      | Inr dataset \<Rightarrow>
          (map_batched lb (prepare_train_features s) (map fst dataset) dataset, s))"
  using assms by (simp add: load_dataset_cr_def)

lemma snd_case_sum:
  "snd (case x of Inl e \<Rightarrow> (f e, s) | Inr d \<Rightarrow> (g d, s)) = s"
  by (cases x) simp_all

lemma recognized_marker: "recognized ''dataset_info.json''"
  by (simp add: recognized_def recognized_extensions_def endswith_def suffix_to_prefix)

text \<open>A file name outside the specification's list falls through every test of the chain.\<close>

lemma decode_file_unrecognized:
  assumes "\<not> recognized filename"
  shows "decode_file lb t filename nd s = (Inr [], s)"
  using assms by (simp add: recognized_def recognized_extensions_def decode_file_def)

lemma read_files_skip:
  assumes "\<not> recognized filename"
  shows "read_files lb t (pre @ (filename, nd) # post) data s = read_files lb t (pre @ post) data s"
proof (induction pre arbitrary: data s)
  case Nil
  show ?case by (simp add: decode_file_unrecognized[OF assms])
next
  case (Cons x pre)
  obtain f n where x: "x = (f, n)" by (cases x)
  show ?case by (simp add: x Cons.IH split: prod.splits sum.splits)
qed

lemma isfile_skip:
  assumes "filename \<noteq> name"
  shows "isfile (Some (pre @ (filename, nd) # post)) name = isfile (Some (pre @ post)) name"
  using assms by (simp add: isfile_def map_add_def split: option.splits)

section \<open>A directory with one database file\<close>

lemma decode_db_fail:
  "decode_file demo_lib t ''data.db'' (File '''') s
     = (Inl (DecodeError ''DatabaseError''),
        s\<lparr>opened := opened s @ [''data.db''], handles := ''data.db'' # handles s\<rparr>)"
  by (simp add: decode_file_def endswith_def suffix_to_prefix demo_lib_def reading_def)

lemma decode_db_ok:
  "decode_file demo_lib t ''data.db'' (File ''rows'') s
     = (Inr [[(''text'', S ''ok''), (''label'', S ''pos'')]],
        s\<lparr>opened := opened s @ [''data.db''], handles := ''data.db'' # handles s\<rparr>)"
  by (simp add: decode_file_def endswith_def suffix_to_prefix demo_lib_def reading_def)

lemma not_marker_db: "\<not> isfile (Some [(''data.db'', nd)]) ''dataset_info.json''"
  by (simp add: isfile_def)

lemma store_labels_handles: "handles (store_labels d s) = handles s"
  by (simp add: store_labels_def Let_def split: option.splits)

lemma load_db_fail_error:
  "fst (load_dataset demo_lib (Some [(''data.db'', File '''')]) demo_tuner)
     = Inl (DecodeError ''DatabaseError'')"
  by (simp add: load_dataset_def Let_def not_marker_db listdir_def decode_db_fail)

lemma load_db_fail_handles:
  "handles (snd (load_dataset demo_lib (Some [(''data.db'', File '''')]) demo_tuner)) = [''data.db'']"
  by (simp add: load_dataset_def Let_def not_marker_db listdir_def decode_db_fail demo_tuner_def)

lemma load_db_ok_handles:
  "handles (snd (load_dataset demo_lib (Some [(''data.db'', File ''rows'')]) demo_tuner))
     = [''data.db'']"
  by (simp add: load_dataset_def Let_def not_marker_db listdir_def decode_db_ok label_key_def
        hashable_def getcol_def snd_case_sum store_labels_handles) (simp add: demo_tuner_def)

lemma load_cr_db_fail_handles:
  "handles (snd (load_dataset_cr demo_lib (Some [(''data.db'', File '''')]) demo_tuner))
     = [''data.db'']"
  by (simp add: load_dataset_cr_def Let_def not_marker_db listdir_def decode_db_fail demo_tuner_def)

section \<open>Feature preparation and a training file with a repeated label\<close>

lemma mapM_Inr:
  "(\<And>x. x \<in> set xs \<Longrightarrow> f x = Inr (g x)) \<Longrightarrow> mapM f xs = Inr (map g xs)"
  by (induction xs) simp_all

lemma mapM_Inl:
  "\<exists>x \<in> set xs. isl (f x) \<Longrightarrow> \<exists>x \<in> set xs. \<exists>e. f x = Inl e \<and> mapM f xs = Inl e"
proof (induction xs)
  case Nil
  then show ?case by simp
next
  case (Cons x xs)
  show ?case
  proof (cases "f x")
    case (Inl e)
    then show ?thesis by simp
  next
    case (Inr y)
    with Cons.prems have "\<exists>x \<in> set xs. isl (f x)" by auto
    from Cons.IH[OF this] obtain z e where "z \<in> set xs" "f z = Inl e" "mapM f xs = Inl e"
      by blast
    then show ?thesis using Inr by auto
  qed
qed

lemma demo_tok_ok:
  "demo_tokenizer \<lparr>text_arg = [S ''ok''], text_pair_arg = None, padding_arg = PadMaxLength,
             truncation_arg = True, max_length_arg = Some 512\<rparr>
     = Inr [(''input_ids'', [L (I 111 # I 107 # replicate 510 (I 0))])]"
  by (simp add: demo_tokenizer_def demo_ids_def demo_fit_def Let_def)

lemma demo_tok_pair:
  "demo_tokenizer \<lparr>text_arg = [S ''a''], text_pair_arg = Some [S ''b''], padding_arg = PadFalse,
             truncation_arg = True, max_length_arg = None\<rparr>
     = Inr [(''input_ids'', [L [I 97, I 98]])]"
  by (simp add: demo_tokenizer_def demo_ids_def demo_fit_def Let_def)

lemma train_lines:
  "file_lines ''ok|pos\<newline>bad|neg\<newline>fine|pos''
     = [''ok|pos\<newline>'', ''bad|neg\<newline>'', ''fine|pos'']"
  by simp

lemma decode_train:
  "decode_file demo_lib t ''train.jsonl''
      (File ''ok|pos\<newline>bad|neg\<newline>fine|pos'') s
     = (Inr [[(''text'', S ''ok''), (''label'', S ''pos'')],
             [(''text'', S ''bad''), (''label'', S ''neg'')],
             [(''text'', S ''fine''), (''label'', S ''pos'')]],
        s\<lparr>opened := opened s @ [''train.jsonl'']\<rparr>)"
  by (simp add: decode_file_def endswith_def suffix_to_prefix with_open_def Let_def
        demo_lib_def demo_json_loads_def)

lemma not_marker_train: "\<not> isfile (Some [(''train.jsonl'', nd)]) ''dataset_info.json''"
  by (simp add: isfile_def)

lemma store_labels_model:
  "model s = Some cfg \<Longrightarrow>
   model (store_labels d s) = Some (cfg\<lparr>label2id := d, id2label := build_id2label d\<rparr>)"
  by (simp add: store_labels_def Let_def)

section \<open>The feature map over a dataset\<close>

lemma batches_first:
  assumes "0 < nrows ds"
  shows "batches 1000 ds
     = slice 0 1000 ds # map (\<lambda>j. slice (j * 1000) 1000 ds) [Suc 0..<(nrows ds + 1000 - 1) div 1000]"
proof -
  have "0 < (nrows ds + 1000 - 1) div 1000" using assms by simp
  then have "[0..<(nrows ds + 1000 - 1) div 1000] = 0 # [Suc 0..<(nrows ds + 1000 - 1) div 1000]"
    by (rule upt_conv_Cons)
  then show ?thesis by (simp add: batches_def)
qed

lemma map_batched_first_Inl:
  assumes "0 < nrows ds" and "f (slice 0 1000 ds) = Inl e"
  shows "map_batched lb f cols ds = Inl e"
  using assms by (simp add: map_batched_def batches_first)

lemma map_batched_first_isl:
  assumes "0 < nrows ds" and "isl (f (slice 0 1000 ds))"
  shows "isl (map_batched lb f cols ds)"
proof -
  obtain e where "f (slice 0 1000 ds) = Inl e" using assms(2) by (cases "f (slice 0 1000 ds)") auto
  from map_batched_first_Inl[where f = f and lb = lb, OF assms(1) this] show ?thesis by simp
qed

lemma map_of_slice:
  "map_of (slice i n b) k = map_option (\<lambda>vs. take n (drop i vs)) (map_of b k)"
  by (induction b) (auto simp: slice_def)

lemma getcol_slice:
  "getcol ds k = Inr col \<Longrightarrow> getcol (slice i n ds) k = Inr (take n (drop i col))"
  by (simp add: getcol_def map_of_slice split: option.splits)

text \<open>Per-file decoding and the label block leave the tokenizer as it is.\<close>

lemma with_open_tokenizer: "tokenizer (snd (with_open p nd body s)) = tokenizer s"
  by (simp add: with_open_def Let_def split: node.splits)

lemma decode_file_tokenizer: "tokenizer (snd (decode_file lb t fn nd s)) = tokenizer s"
  by (simp add: decode_file_def with_open_tokenizer reading_def split: sum.splits)

lemma read_files_tokenizer: "tokenizer (snd (read_files lb t entries data s)) = tokenizer s"
proof (induction entries arbitrary: data s)
  case Nil
  show ?case by simp
next
  case (Cons x entries)
  obtain fn nd where x: "x = (fn, nd)" by (cases x)
  obtain r s' where d: "decode_file lb t fn nd s = (r, s')"
    by (cases "decode_file lb t fn nd s")
  have m: "tokenizer s' = tokenizer s" using decode_file_tokenizer[of lb t fn nd s] d by simp
  show ?case
    by (cases r) (simp_all add: x d m Cons.IH)
qed

lemma read_files_fst:
  "fst (read_files lb t entries data s) = fst (read_files lb t entries data s')"
proof (induction entries arbitrary: data s s')
  case Nil
  show ?case by simp
next
  case (Cons x entries)
  obtain fn nd where x: "x = (fn, nd)" by (cases x)
  obtain r s1 where d1: "decode_file lb t fn nd s = (r, s1)"
    by (cases "decode_file lb t fn nd s")
  obtain r' s2 where d2: "decode_file lb t fn nd s' = (r', s2)"
    by (cases "decode_file lb t fn nd s'")
  have rr: "r' = r" using decode_file_fst[of lb t fn nd s s'] d1 d2 by simp
  show ?case
    by (cases r) (simp_all add: x d1 d2 rr Cons.IH[of _ s1 s2])
qed

lemma store_labels_tokenizer: "tokenizer (store_labels d s) = tokenizer s"
  by (simp add: store_labels_def Let_def split: option.splits)

section \<open>Loading without a tokenizer, and without a label index\<close>

lemma prepare_no_tokenizer:
  "tokenizer s = None \<Longrightarrow> prepare_train_features s b = Inl (Exception ''Tokenizer not initialized'')"
  by (simp add: prepare_train_features_def)

lemma tokenize_no_tokenizer:
  "tokenizer s = None \<Longrightarrow> getcol b ''text'' = Inr texts \<Longrightarrow>
   tokenize_function s b = Inl (TypeError ''NoneType object is not callable'')"
  by (simp add: tokenize_function_def)

lemma load_cr_no_tokenizer:
  assumes "tokenizer s = None"
    and "\<not> isfile (Some entries) ''dataset_info.json''"
    and "fst (read_files lb CommonsenseReasoning entries [] s) = Inr data"
    and "from_pandas lb data = Inr ds"
    and "0 < nrows ds"
  shows "load_dataset_cr lb (Some entries) s
     = (Inl (Exception ''Tokenizer not initialized''), snd (read_files lb CommonsenseReasoning entries [] s))"
proof -
  obtain s' where rf: "read_files lb CommonsenseReasoning entries [] s = (Inr data, s')"
    using assms(3) by (cases "read_files lb CommonsenseReasoning entries [] s") simp
  have "tokenizer s' = None"
    using read_files_tokenizer[of lb CommonsenseReasoning entries "[]" s] rf assms(1) by simp
  then have "prepare_train_features s' (slice 0 1000 ds)
      = Inl (Exception ''Tokenizer not initialized'')"
    by (rule prepare_no_tokenizer)
  from map_batched_first_Inl[where f = "prepare_train_features s'" and lb = lb, OF assms(5) this]
  show ?thesis
    using assms(2) by (simp add: load_dataset_cr_def listdir_def rf assms(4))
qed

lemma load_cr_snapshot_no_tokenizer:
  assumes "tokenizer s = None"
    and "isfile dp ''dataset_info.json''"
    and "load_from_disk lb (the dp) = Inr ds"
    and "0 < nrows ds"
  shows "load_dataset_cr lb dp s = (Inl (Exception ''Tokenizer not initialized''), s)"
proof -
  have "prepare_train_features s (slice 0 1000 ds) = Inl (Exception ''Tokenizer not initialized'')"
    using assms(1) by (rule prepare_no_tokenizer)
  from map_batched_first_Inl[where f = "prepare_train_features s" and lb = lb, OF assms(4) this]
  show ?thesis
    by (simp add: load_dataset_cr_snapshot[OF assms(2)] assms(3))
qed

lemma load_cr_conversion_error:
  assumes "\<not> isfile (Some entries) ''dataset_info.json''"
    and "fst (read_files lb CommonsenseReasoning entries [] s) = Inr data"
    and "from_pandas lb data = Inl e"
  shows "fst (load_dataset_cr lb (Some entries) s) = Inl e"
proof -
  obtain s' where rf: "read_files lb CommonsenseReasoning entries [] s = (Inr data, s')"
    using assms(2) by (cases "read_files lb CommonsenseReasoning entries [] s") simp
  show ?thesis
    using assms(1) by (simp add: load_dataset_cr_def listdir_def rf assms(3))
qed

lemma load_no_tokenizer:
  assumes "tokenizer s = None"
    and "\<not> isfile (Some entries) ''dataset_info.json''"
    and "fst (read_files lb Classification entries [] s) = Inr data"
    and "mapM label_key data = Inr labels"
    and "from_pandas lb data = Inr ds"
    and "0 < nrows ds"
    and "map_of ds ''text'' \<noteq> None"
  shows "fst (load_dataset lb (Some entries) s) = Inl (TypeError ''NoneType object is not callable'')"
proof -
  let ?s2 = "s\<lparr>data_collator := Some (tokenizer s), label_to_id := initial_label_to_id s\<rparr>"
  have "fst (read_files lb Classification entries [] ?s2) = Inr data"
    using read_files_fst[of lb Classification entries "[]" ?s2 s] assms(3) by simp
  then obtain s3 where rf: "read_files lb Classification entries [] ?s2 = (Inr data, s3)"
    by (cases "read_files lb Classification entries [] ?s2") simp
  have t3: "tokenizer s3 = None"
    using read_files_tokenizer[of lb Classification entries "[]" ?s2] rf assms(1) by simp
  let ?s4 = "store_labels (build_label_to_id labels) s3"
  have t4: "tokenizer ?s4 = None" by (simp add: store_labels_tokenizer t3)
  obtain col where "getcol ds ''text'' = Inr col"
    using assms(7) by (auto simp: getcol_def)
  then have "getcol (slice 0 1000 ds) ''text'' = Inr (take 1000 (drop 0 col))"
    by (rule getcol_slice)
  from tokenize_no_tokenizer[OF t4 this]
  have "map_batched lb (tokenize_function ?s4) [] ds
      = Inl (TypeError ''NoneType object is not callable'')"
    by (rule map_batched_first_Inl[where f = "tokenize_function ?s4", OF assms(6)])
  then show ?thesis
    using assms(2) by (simp add: load_dataset_def listdir_def rf assms(4,5) Let_def)
qed

lemma tokenize_no_index:
  assumes "label_to_id s = None"
    and "\<And>ls. getcol b ''label'' = Inr ls \<Longrightarrow> ls \<noteq> []"
  shows "isl (tokenize_function s b)"
proof (cases "getcol b ''label''")
  case (Inl e)
  then show ?thesis by (simp add: tokenize_function_def split: sum.splits option.splits)
next
  case (Inr ls)
  then have "ls \<noteq> []" by (rule assms(2))
  then obtain l ls' where "ls = l # ls'" by (cases ls) auto
  then have "mapM (label_getitem (label_to_id s)) ls
      = Inl (TypeError ''NoneType object is not subscriptable'')"
    by (simp add: assms(1) label_getitem_def)
  then show ?thesis
    using Inr by (simp add: tokenize_function_def split: sum.splits option.splits)
qed

lemma rectangular_slice_label:
  assumes "0 < nrows ds"
    and "list_all (\<lambda>(k, vs). length vs = nrows ds) ds"
    and "getcol (slice 0 1000 ds) ''label'' = Inr ls"
  shows "ls \<noteq> []"
proof -
  from assms(3) obtain col where c: "map_of ds ''label'' = Some col" and l: "ls = take 1000 (drop 0 col)"
    by (auto simp: getcol_def map_of_slice split: option.splits)
  from c have "(''label'', col) \<in> set ds" by (rule map_of_SomeD)
  with assms(2) have "length col = nrows ds" by (auto simp: list_all_iff)
  with assms(1) l show ?thesis by auto
qed

lemma from_pandas_train:
  "from_pandas demo_lib [[(''text'', S ''ok''), (''label'', S ''pos'')],
                         [(''text'', S ''bad''), (''label'', S ''neg'')],
                         [(''text'', S ''fine''), (''label'', S ''pos'')]]
     = Inr [(''text'', [S ''ok'', S ''bad'', S ''fine'']),
            (''label'', [S ''pos'', S ''neg'', S ''pos''])]"
  by (simp add: demo_lib_def demo_from_pandas_def from_records_def uniform_def)

lemma decode_bad_json:
  "decode_file demo_lib t ''bad.json'' (File ''{'') s
     = (Inl (DecodeError ''JSONDecodeError''), s\<lparr>opened := opened s @ [''bad.json'']\<rparr>)"
  by (simp add: decode_file_def endswith_def suffix_to_prefix with_open_def Let_def demo_lib_def)

lemma not_marker_bad: "\<not> isfile (Some [(''bad.json'', nd)]) ''dataset_info.json''"
  by (simp add: isfile_def)

lemma load_cr_bad_json:
  "load_dataset_cr demo_lib (Some [(''bad.json'', File ''{'')]) s
     = (Inl (DecodeError ''JSONDecodeError''), s\<lparr>opened := opened s @ [''bad.json'']\<rparr>)"
  by (simp add: load_dataset_cr_def not_marker_bad listdir_def decode_bad_json)

lemma decode_two:
  "decode_file demo_lib t ''train.jsonl'' (File ''ok|pos\<newline>bad|neg'') s
     = (Inr [[(''text'', S ''ok''), (''label'', S ''pos'')],
             [(''text'', S ''bad''), (''label'', S ''neg'')]],
        s\<lparr>opened := opened s @ [''train.jsonl'']\<rparr>)"
  by (simp add: decode_file_def endswith_def suffix_to_prefix with_open_def Let_def
        demo_lib_def demo_json_loads_def)

lemma label_to_id_two:
  "build_label_to_id [S ''pos'', S ''neg''] = [(S ''pos'', 0), (S ''neg'', 1)]"
  by (simp add: build_label_to_id_def dict_of_def enumerate_eq_zip)

lemma load_two_no_tokenizer_state:
  "snd (load_dataset demo_lib (Some [(''train.jsonl'', File ''ok|pos\<newline>bad|neg'')])
          (demo_tuner\<lparr>tokenizer := None\<rparr>))
     = store_labels [(S ''pos'', 0), (S ''neg'', 1)]
         (demo_tuner\<lparr>tokenizer := None, data_collator := Some None,
                     label_to_id := Some [(S ''pos'', 0)], opened := [''train.jsonl'']\<rparr>)"
  by (simp add: load_dataset_def Let_def not_marker_train listdir_def decode_two label_key_def
        hashable_def getcol_def snd_case_sum label_to_id_two initial_label_to_id_def)
    (simp add: demo_tuner_def)

lemma from_pandas_two:
  "from_pandas demo_lib [[(''text'', S ''ok''), (''label'', S ''pos'')],
                         [(''text'', S ''bad''), (''label'', S ''neg'')]]
     = Inr [(''text'', [S ''ok'', S ''bad'']), (''label'', [S ''pos'', S ''neg''])]"
  by (simp add: demo_lib_def demo_from_pandas_def from_records_def uniform_def)

lemma load_two_no_tokenizer_error:
  "fst (load_dataset demo_lib (Some [(''train.jsonl'', File ''ok|pos\<newline>bad|neg'')])
          (demo_tuner\<lparr>tokenizer := None\<rparr>))
     = Inl (TypeError ''NoneType object is not callable'')"
proof (rule load_no_tokenizer)
  show "tokenizer (demo_tuner\<lparr>tokenizer := None\<rparr>) = None" by simp
  show "\<not> isfile (Some [(''train.jsonl'', File ''ok|pos\<newline>bad|neg'')]) ''dataset_info.json''"
    by (rule not_marker_train)
  show "fst (read_files demo_lib Classification [(''train.jsonl'', File ''ok|pos\<newline>bad|neg'')] []
               (demo_tuner\<lparr>tokenizer := None\<rparr>))
          = Inr [[(''text'', S ''ok''), (''label'', S ''pos'')],
                 [(''text'', S ''bad''), (''label'', S ''neg'')]]"
    by (simp add: decode_two)
  show "mapM label_key [[(''text'', S ''ok''), (''label'', S ''pos'')],
                        [(''text'', S ''bad''), (''label'', S ''neg'')]]
          = Inr [S ''pos'', S ''neg'']"
    by (simp add: label_key_def hashable_def getcol_def)
  show "from_pandas demo_lib [[(''text'', S ''ok''), (''label'', S ''pos'')],
                         [(''text'', S ''bad''), (''label'', S ''neg'')]]
     = Inr [(''text'', [S ''ok'', S ''bad'']), (''label'', [S ''pos'', S ''neg''])]"
    by (rule from_pandas_two)
  show "0 < nrows [(''text'', [S ''ok'', S ''bad'']), (''label'', [S ''pos'', S ''neg''])]"
    by (simp add: nrows_def)
  show "map_of [(''text'', [S ''ok'', S ''bad'']), (''label'', [S ''pos'', S ''neg''])] ''text''
          \<noteq> None"
    by simp
qed

lemma load_two_no_tokenizer_opened:
  "opened (snd (load_dataset demo_lib (Some [(''train.jsonl'', File ''ok|pos\<newline>bad|neg'')])
          (demo_tuner\<lparr>tokenizer := None\<rparr>))) = [''train.jsonl'']"
  unfolding load_two_no_tokenizer_state
  by (simp add: store_labels_def Let_def demo_tuner_def)

lemma load_two_no_tokenizer_labels:
  "map_option label2id
     (model (snd (load_dataset demo_lib (Some [(''train.jsonl'', File ''ok|pos\<newline>bad|neg'')])
          (demo_tuner\<lparr>tokenizer := None\<rparr>)))) = Some [(S ''pos'', 0), (S ''neg'', 1)]"
  unfolding load_two_no_tokenizer_state
  by (simp add: store_labels_def Let_def demo_tuner_def)

lemma load_cr_bad_json_no_tokenizer:
  "load_dataset_cr demo_lib (Some [(''bad.json'', File ''{'')]) (demo_tuner\<lparr>tokenizer := None\<rparr>)
     = (Inl (DecodeError ''JSONDecodeError''),
        demo_tuner\<lparr>tokenizer := None, opened := [''bad.json'']\<rparr>)"
  by (simp add: load_cr_bad_json demo_tuner_def)

lemma batches_single:
  assumes "0 < nrows ds" and "nrows ds \<le> 1000"
  shows "batches 1000 ds = [slice 0 1000 ds]"
proof -
  have "(nrows ds + 1000 - 1) div 1000 = Suc 0" using assms by simp
  then show ?thesis by (simp add: batches_def)
qed

lemma map_batched_single:
  assumes "0 < nrows ds" and "nrows ds \<le> 1000"
  shows "map_batched lb f cols ds
     = (case f (slice 0 1000 ds) of
          Inl e \<Rightarrow> Inl e
        | Inr out \<Rightarrow>
            (case arrow_write lb (dict_merge (remove_columns cols (slice 0 1000 ds)) out) of
               Inl e \<Rightarrow> Inl e
             | Inr b \<Rightarrow> Inr b))"
  using assms(1) by (simp add: map_batched_def batches_single[OF assms] split: sum.splits)

lemma tokenize_snapshot_row:
  "tokenize_function
       (demo_tuner\<lparr>data_collator := Some (Some demo_tokenizer), label_to_id := Some [(S ''pos'', 0)]\<rparr>)
       [(''text'', [S ''ok'']), (''label'', [S ''pos''])]
     = Inr [(''input_ids'', [L (I 111 # I 107 # replicate 510 (I 0))]), (''label'', [I 0])]"
  by (simp add: tokenize_function_def getcol_def demo_tuner_def demo_tok_ok label_getitem_def)

lemma map_snapshot_row:
  "map_batched demo_lib
       (tokenize_function
          (demo_tuner\<lparr>data_collator := Some (Some demo_tokenizer),
                       label_to_id := Some [(S ''pos'', 0)]\<rparr>))
       [] [(''text'', [S ''ok'']), (''label'', [S ''pos''])]
     = Inr [(''text'', [S ''ok'']), (''label'', [I 0]),
            (''input_ids'', [L (I 111 # I 107 # replicate 510 (I 0))])]"
proof -
  let ?ds = "[(''text'', [S ''ok'']), (''label'', [S ''pos''])]"
  have n: "0 < nrows ?ds" "nrows ?ds \<le> 1000" by (simp_all add: nrows_def)
  have sl: "slice 0 1000 ?ds = ?ds" by (simp add: slice_def)
  show ?thesis
    unfolding map_batched_single[OF n] sl tokenize_snapshot_row
    by (simp add: remove_columns_def dict_merge_def demo_lib_def)
qed

lemma snapshot_dir:
  "isfile (Some [(''dataset_info.json'', File ''{}''), (''bad.json'', File ''{'')])
     ''dataset_info.json''"
  by (simp add: isfile_def)

lemma load_cr_decode_error:
  assumes "\<not> isfile (Some entries) ''dataset_info.json''"
    and "fst (read_files lb CommonsenseReasoning entries [] s) = Inl e"
  shows "fst (load_dataset_cr lb (Some entries) s) = Inl e"
proof -
  obtain s' where rf: "read_files lb CommonsenseReasoning entries [] s = (Inl e, s')"
    using assms(2) by (cases "read_files lb CommonsenseReasoning entries [] s") simp
  show ?thesis
    using assms(1) by (simp add: load_dataset_cr_def listdir_def rf)
qed

section \<open>The claims\<close>

text \<open>
  C2. In either loader, when the snapshot marker is absent and decoding the files in
  listing order reaches a file whose decoder fails with error \<open>e\<close> (every file before it
  having decoded), the load returns no dataset, the error it raises is \<open>e\<close> itself, and
  the model configuration, with its \<open>label2id\<close> and \<open>id2label\<close>, is what it was before
  the call.
\<close>

theorem decode_failure_aborts_load:
  assumes "\<not> isfile (Some (pre @ (fn, nd) # post)) ''dataset_info.json''"
    and "\<forall>(f, n) \<in> set pre. \<not> isl (fst (decode_file lb t f n s0))"
    and "fst (decode_file lb t fn nd s0) = Inl e"
  shows "fst (load_for t lb (Some (pre @ (fn, nd) # post)) s0) = Inl e
       \<and> model (snd (load_for t lb (Some (pre @ (fn, nd) # post)) s0)) = model s0"
proof (cases t)
  case Classification
  let ?s2 = "(s0\<lparr>data_collator := Some (tokenizer s0)\<rparr>)
               \<lparr>label_to_id := initial_label_to_id (s0\<lparr>data_collator := Some (tokenizer s0)\<rparr>)\<rparr>"
  have "fst (read_files lb Classification (pre @ (fn, nd) # post) [] ?s2) = Inl e"
    using read_files_first_error[OF assms(2,3)] Classification by simp
  from load_dataset_decode_error[OF assms(1) this _ refl]
  show ?thesis by (simp add: load_for_def Classification)
next
  case CommonsenseReasoning
  have "fst (read_files lb CommonsenseReasoning (pre @ (fn, nd) # post) [] s0) = Inl e"
    using read_files_first_error[OF assms(2,3)] CommonsenseReasoning by simp
  from load_dataset_cr_decode_error[OF assms(1) this]
  show ?thesis by (simp add: load_for_def CommonsenseReasoning)
qed

theorem decode_failure_aborts_load_witness:
  "fst (load_for Classification demo_lib
          (Some [(''train.jsonl'', File ''ok|pos''), (''bad.json'', File ''{'')]) demo_tuner)
     = Inl (DecodeError ''JSONDecodeError'')
   \<and> model (snd (load_for Classification demo_lib
          (Some [(''train.jsonl'', File ''ok|pos''), (''bad.json'', File ''{'')]) demo_tuner))
     = model demo_tuner"
proof -
  have a: "\<not> isfile (Some ([(''train.jsonl'', File ''ok|pos'')] @ (''bad.json'', File ''{'') # []))
             ''dataset_info.json''"
    by (simp add: isfile_def)
  have b: "\<forall>(f, n) \<in> set [(''train.jsonl'', File ''ok|pos'')].
             \<not> isl (fst (decode_file demo_lib Classification f n demo_tuner))"
    by (simp add: decode_file_def endswith_def suffix_to_prefix with_open_def Let_def
          demo_lib_def demo_json_loads_def)
  have c: "fst (decode_file demo_lib Classification ''bad.json'' (File ''{'') demo_tuner)
             = Inl (DecodeError ''JSONDecodeError'')"
    by (simp add: decode_file_def endswith_def suffix_to_prefix with_open_def Let_def demo_lib_def)
  show ?thesis
    using decode_failure_aborts_load[OF a b c] by simp
qed

text \<open>
  C4. In the configuration that the classification loader stores on the model, every
  label that is a key of \<open>label2id\<close> is mapped by \<open>label2id\<close> to an id that \<open>id2label\<close> maps
  back to that label, and no other label has that id.
\<close>

theorem id2label_inverts_label2id:
  assumes "model (store_labels (build_label_to_id labels) s) = Some cfg"
    and "map_of (label2id cfg) l = Some i"
  shows "map_of (id2label cfg) i = Some l
       \<and> (\<forall>l'. map_of (label2id cfg) l' = Some i \<longrightarrow> l' = l)"
proof -
  obtain cfg0 where c0: "model s = Some cfg0"
    using assms(1) by (cases "model s") (simp_all add: store_labels_def Let_def)
  have cfg: "cfg = cfg0\<lparr>label2id := build_label_to_id labels,
                        id2label := build_id2label (build_label_to_id labels)\<rparr>"
    using assms(1) by (simp add: store_labels_def Let_def c0 split: if_splits)
  have m: "map_of (build_label_to_id labels) l = Some i" using assms(2) by (simp add: cfg)
  have "map_of (id2label cfg) i = Some l" using id2label_inverse[OF m] by (simp add: cfg)
  moreover have "l' = l" if "map_of (label2id cfg) l' = Some i" for l'
    using label_to_id_inj[OF m, of l'] that by (simp add: cfg)
  ultimately show ?thesis by blast
qed

theorem id2label_inverts_label2id_witness:
  "map_of (label2id \<lparr>label2id = [(S ''pos'', 2), (S ''neg'', 1)],
                     id2label = [(2, S ''pos''), (1, S ''neg'')]\<rparr>) (S ''pos'') = Some 2
   \<and> map_of (id2label \<lparr>label2id = [(S ''pos'', 2), (S ''neg'', 1)],
                       id2label = [(2, S ''pos''), (1, S ''neg'')]\<rparr>) 2 = Some (S ''pos'')
   \<and> map_of (label2id \<lparr>label2id = [(S ''pos'', 2), (S ''neg'', 1)],
                       id2label = [(2, S ''pos''), (1, S ''neg'')]\<rparr>) (S ''neg'') \<noteq> Some 2"
proof -
  let ?cfg = "\<lparr>label2id = [(S ''pos'', 2), (S ''neg'', 1)],
              id2label = [(2, S ''pos''), (1, S ''neg'')]\<rparr>"
  have a: "model (store_labels (build_label_to_id [S ''pos'', S ''neg'', S ''pos'']) demo_tuner)
             = Some ?cfg"
    unfolding label_to_id_repeated id2label_repeated[symmetric]
    by (simp add: store_labels_def Let_def demo_tuner_def dict_eq_def)
  have b: "map_of (label2id ?cfg) (S ''pos'') = Some 2"
    by simp
  note w = id2label_inverts_label2id[OF a b]
  have c: "map_of (id2label ?cfg) 2 = Some (S ''pos'')"
    using w by (rule conjunct1)
  have "map_of (label2id ?cfg) (S ''neg'') = Some 2 \<longrightarrow> S ''neg'' = S ''pos''"
    using w by blast
  then have d: "map_of (label2id ?cfg) (S ''neg'') \<noteq> Some 2" by simp
  show ?thesis using b c d by (intro conjI)
qed

text \<open>
  C3. When \<open>dataset_info.json\<close> is a file of the directory, each loader returns what
  \<open>load_from_disk\<close> gives for the directory, passed through the loader's feature map
  (or the error of \<open>load_from_disk\<close>), and nothing else: the result is the same whatever
  the per-file decoders and the conversion of records would do, and per-file decoding
  opens no entry of the directory and leaves no handle.
\<close>

theorem snapshot_bypasses_decoding:
  assumes "isfile dp ''dataset_info.json''"
    and "load_from_disk lb' = load_from_disk lb"
    and "arrow_write lb' = arrow_write lb"
  shows "load_dataset lb dp s
           = (case load_from_disk lb (the dp) of
                Inl e \<Rightarrow>
                  (Inl e, s\<lparr>data_collator := Some (tokenizer s),
                             label_to_id := initial_label_to_id s\<rparr>)
              | Inr ds \<Rightarrow>
                  (map_batched lb
                     (tokenize_function (s\<lparr>data_collator := Some (tokenizer s),
                                            label_to_id := initial_label_to_id s\<rparr>)) [] ds,
                   s\<lparr>data_collator := Some (tokenizer s), label_to_id := initial_label_to_id s\<rparr>))
       \<and> load_dataset_cr lb dp s
           = (case load_from_disk lb (the dp) of
                Inl e \<Rightarrow> (Inl e, s)
              | Inr ds \<Rightarrow> (map_batched lb (prepare_train_features s) (map fst ds) ds, s))
       \<and> load_for t lb' dp s = load_for t lb dp s
       \<and> opened (snd (load_for t lb dp s)) = opened s
       \<and> handles (snd (load_for t lb dp s)) = handles s"
proof -
  have mb: "map_batched lb' f cols ds = map_batched lb f cols ds" for f cols ds
    unfolding map_batched_def assms(3) by (rule refl)
  have a: "load_dataset lb dp s
           = (case load_from_disk lb (the dp) of
                Inl e \<Rightarrow>
                  (Inl e, s\<lparr>data_collator := Some (tokenizer s),
                             label_to_id := initial_label_to_id s\<rparr>)
              | Inr ds \<Rightarrow>
                  (map_batched lb
                     (tokenize_function (s\<lparr>data_collator := Some (tokenizer s),
                                            label_to_id := initial_label_to_id s\<rparr>)) [] ds,
                   s\<lparr>data_collator := Some (tokenizer s), label_to_id := initial_label_to_id s\<rparr>))"
    by (simp add: load_dataset_snapshot[OF assms(1)] Let_def)
  have b: "load_dataset_cr lb dp s
           = (case load_from_disk lb (the dp) of
                Inl e \<Rightarrow> (Inl e, s)
              | Inr ds \<Rightarrow> (map_batched lb (prepare_train_features s) (map fst ds) ds, s))"
    by (rule load_dataset_cr_snapshot[OF assms(1)])
  have c: "load_for t lb' dp s = load_for t lb dp s"
  proof (cases t)
    case Classification
    show ?thesis
      unfolding Classification load_for_def task.case load_dataset_snapshot[OF assms(1)] assms(2) mb
      by (rule refl)
  next
    case CommonsenseReasoning
    show ?thesis
      unfolding CommonsenseReasoning load_for_def task.case load_dataset_cr_snapshot[OF assms(1)]
        assms(2) mb
      by (rule refl)
  qed
  have d: "opened (snd (load_for t lb dp s)) = opened s \<and> handles (snd (load_for t lb dp s)) = handles s"
  proof (cases t)
    case Classification
    show ?thesis
      by (simp add: Classification load_for_def a split: sum.splits)
  next
    case CommonsenseReasoning
    show ?thesis
      by (simp add: CommonsenseReasoning load_for_def b split: sum.splits)
  qed
  show ?thesis using a b c d by (intro conjI) simp_all
qed

theorem snapshot_bypasses_decoding_witness:
  "isfile (Some [(''dataset_info.json'', File ''{}''), (''bad.json'', File ''{'')]) ''dataset_info.json''
   \<and> load_dataset demo_lib
         (Some [(''dataset_info.json'', File ''{}''), (''bad.json'', File ''{'')]) demo_tuner
       = (Inr [(''text'', [S ''ok'']), (''label'', [I 0]),
               (''input_ids'', [L (I 111 # I 107 # replicate 510 (I 0))])],
          demo_tuner\<lparr>data_collator := Some (Some demo_tokenizer),
                       label_to_id := Some [(S ''pos'', 0)]\<rparr>)
   \<and> load_dataset_cr demo_lib
         (Some [(''dataset_info.json'', File ''{}''), (''bad.json'', File ''{'')]) demo_tuner
       = (Inl (KeyError (S ''premise'')), demo_tuner)
   \<and> load_for Classification
         (demo_lib\<lparr>json_load := (\<lambda>c. Inr []), from_pandas := (\<lambda>d. Inr [])\<rparr>)
         (Some [(''dataset_info.json'', File ''{}''), (''bad.json'', File ''{'')]) demo_tuner
       = load_for Classification demo_lib
           (Some [(''dataset_info.json'', File ''{}''), (''bad.json'', File ''{'')]) demo_tuner
   \<and> opened (snd (load_for Classification demo_lib
           (Some [(''dataset_info.json'', File ''{}''), (''bad.json'', File ''{'')]) demo_tuner)) = []
   \<and> handles (snd (load_for Classification demo_lib
           (Some [(''dataset_info.json'', File ''{}''), (''bad.json'', File ''{'')]) demo_tuner)) = []"
proof -
  let ?d = "[(''dataset_info.json'', File ''{}''), (''bad.json'', File ''{'')]"
  let ?lb = "demo_lib\<lparr>json_load := (\<lambda>c. Inr []), from_pandas := (\<lambda>d. Inr [])\<rparr>"
  have a: "isfile (Some ?d) ''dataset_info.json''" by (rule snapshot_dir)
  have b: "load_from_disk ?lb = load_from_disk demo_lib" by simp
  have c: "arrow_write ?lb = arrow_write demo_lib" by simp
  note w = snapshot_bypasses_decoding[where t = Classification and s = demo_tuner, OF a b c]
  have ld: "load_from_disk demo_lib ?d = Inr [(''text'', [S ''ok'']), (''label'', [S ''pos''])]"
    by (simp add: demo_lib_def)
  have tk: "tokenizer demo_tuner = Some demo_tokenizer" by (simp add: demo_tuner_def)
  have il: "initial_label_to_id demo_tuner = Some [(S ''pos'', 0)]"
    by (simp add: initial_label_to_id_def demo_tuner_def)
  have o: "opened demo_tuner = []" "handles demo_tuner = []" by (simp_all add: demo_tuner_def)
  have pr: "map_batched demo_lib (prepare_train_features demo_tuner)
              [''text'', ''label''] [(''text'', [S ''ok'']), (''label'', [S ''pos''])]
            = Inl (KeyError (S ''premise''))"
    by (rule map_batched_first_Inl)
      (simp_all add: nrows_def slice_def prepare_train_features_def getcol_def tk)
  have w1: "load_dataset demo_lib (Some ?d) demo_tuner
       = (Inr [(''text'', [S ''ok'']), (''label'', [I 0]),
               (''input_ids'', [L (I 111 # I 107 # replicate 510 (I 0))])],
          demo_tuner\<lparr>data_collator := Some (Some demo_tokenizer),
                       label_to_id := Some [(S ''pos'', 0)]\<rparr>)"
    using conjunct1[OF w] by (simp add: ld tk il map_snapshot_row)
  have w2: "load_dataset_cr demo_lib (Some ?d) demo_tuner = (Inl (KeyError (S ''premise'')), demo_tuner)"
    using conjunct1[OF conjunct2[OF w]] by (simp add: ld pr)
  have w3: "load_for Classification ?lb (Some ?d) demo_tuner
              = load_for Classification demo_lib (Some ?d) demo_tuner"
    using conjunct1[OF conjunct2[OF conjunct2[OF w]]] .
  have w4: "opened (snd (load_for Classification demo_lib (Some ?d) demo_tuner)) = []"
    using conjunct1[OF conjunct2[OF conjunct2[OF conjunct2[OF w]]]] by (simp only: o)
  have w5: "handles (snd (load_for Classification demo_lib (Some ?d) demo_tuner)) = []"
    using conjunct2[OF conjunct2[OF conjunct2[OF conjunct2[OF w]]]] by (simp only: o)
  show ?thesis using a w1 w2 w3 w4 w5 by (intro conjI)
qed

text \<open>
  C8. In either loader, a directory entry whose name ends in none of \<open>.jsonl\<close>, \<open>.json\<close>,
  \<open>.csv\<close>, \<open>.tsv\<close>, \<open>.parquet\<close>, \<open>.feather\<close>, \<open>.xls\<close>, \<open>.xlsx\<close>, \<open>.xml\<close>, \<open>.yaml\<close>, \<open>.yml\<close>,
  \<open>.db\<close> yields no record and no error and leaves the state as it was; with per-file
  decoding in force, the load of the directory gives what the load of the directory
  without that entry gives.
\<close>

theorem unrecognized_file_skipped:
  assumes "\<not> recognized filename"
    and "\<not> isfile (Some (pre @ post)) ''dataset_info.json''"
  shows "decode_file lb t filename nd s = (Inr [], s)
       \<and> load_for t lb (Some (pre @ (filename, nd) # post)) s = load_for t lb (Some (pre @ post)) s"
proof -
  have ne: "filename \<noteq> ''dataset_info.json''" using assms(1) recognized_marker by auto
  have nf: "\<not> isfile (Some (pre @ (filename, nd) # post)) ''dataset_info.json''"
    using assms(2) isfile_skip[OF ne] by simp
  have "load_for t lb (Some (pre @ (filename, nd) # post)) s = load_for t lb (Some (pre @ post)) s"
  proof (cases t)
    case Classification
    show ?thesis
      using nf assms(2)
      by (simp add: Classification load_for_def load_dataset_def Let_def listdir_def
            read_files_skip[OF assms(1)])
  next
    case CommonsenseReasoning
    show ?thesis
      using nf assms(2)
      by (simp add: CommonsenseReasoning load_for_def load_dataset_cr_def Let_def listdir_def
            read_files_skip[OF assms(1)])
  qed
  then show ?thesis by (simp add: decode_file_unrecognized[OF assms(1)])
qed

theorem unrecognized_file_skipped_witness:
  "\<not> recognized ''notes.txt''
   \<and> \<not> isfile (Some [(''train.jsonl'', File ''ok|pos'')]) ''dataset_info.json''
   \<and> decode_file demo_lib Classification ''notes.txt'' (File ''{'') demo_tuner = (Inr [], demo_tuner)
   \<and> load_for Classification demo_lib
         (Some [(''train.jsonl'', File ''ok|pos''), (''notes.txt'', File ''{'')]) demo_tuner
       = load_for Classification demo_lib (Some [(''train.jsonl'', File ''ok|pos'')]) demo_tuner"
proof -
  have a: "\<not> recognized ''notes.txt''"
    by (simp add: recognized_def recognized_extensions_def endswith_def suffix_to_prefix)
  have b: "\<not> isfile (Some ([(''train.jsonl'', File ''ok|pos'')] @ [])) ''dataset_info.json''"
    by (simp add: isfile_def)
  show ?thesis
    using a b
      unrecognized_file_skipped[OF a b, of demo_lib Classification "File ''{''" demo_tuner]
    by simp
qed

text \<open>
  C9. The claim is that every handle acquired during the load is released on every exit
  path. On a directory holding one file \<open>data.db\<close> the load leaves the connection to it
  open: when the query fails and the load raises, in both loaders, and when the query
  succeeds and the load goes on.
\<close>

theorem sqlite_connection_left_open:
  "fst (load_dataset demo_lib (Some [(''data.db'', File '''')]) demo_tuner)
     = Inl (DecodeError ''DatabaseError'')
   \<and> handles (snd (load_dataset demo_lib (Some [(''data.db'', File '''')]) demo_tuner))
       = [''data.db'']
   \<and> handles (snd (load_dataset demo_lib (Some [(''data.db'', File ''rows'')]) demo_tuner))
       = [''data.db'']
   \<and> handles (snd (load_dataset_cr demo_lib (Some [(''data.db'', File '''')]) demo_tuner))
       = [''data.db'']"
  using load_db_fail_error load_db_fail_handles load_db_ok_handles load_cr_db_fail_handles
  by (intro conjI)

text \<open>
  C1. The claim is that the label index built by the non-snapshot path gives the distinct
  labels the ids \<open>0\<close>, \<open>1\<close>, ... in first-seen order. On a training file with the labels
  \<open>pos\<close>, \<open>neg\<close>, \<open>pos\<close> the index stored on the model gives \<open>pos\<close> the id 2 and \<open>neg\<close>
  the id 1: each label gets the position of its last occurrence among all records.
\<close>

theorem label_ids_with_repeated_label:
  "map_option label2id (model (snd (load_dataset demo_lib
      (Some [(''train.jsonl'', File ''ok|pos\<newline>bad|neg\<newline>fine|pos'')])
      demo_tuner)))
     = Some [(S ''pos'', 2), (S ''neg'', 1)]"
proof -
  have m: "model (demo_tuner\<lparr>data_collator := x, label_to_id := y, opened := z\<rparr>)
             = Some \<lparr>label2id = [(S ''pos'', 0)], id2label = [(0, S ''pos'')]\<rparr>" for x y z
    by (simp add: demo_tuner_def)
  show ?thesis
    by (simp add: load_dataset_def Let_def not_marker_train listdir_def decode_train label_key_def
          hashable_def getcol_def snd_case_sum
          label_to_id_repeated store_labels_model[OF m])
qed

text \<open>
  C5. With a tokenizer and a label index, on a batch that has the columns \<open>text\<close> and
  \<open>label\<close>, the classification feature preparer calls the tokenizer on the texts with
  padding to the maximum length, truncation and maximum length 512; when that call
  succeeds and every label of the batch is a key of the index, the result is the
  tokenizer's columns with the column \<open>label\<close> holding the id of each label; when some
  label is not a key of the index, the preparer raises \<open>KeyError\<close> on such a label and
  returns no row.
\<close>

theorem tokenize_function_maps_labels:
  assumes "tokenizer s = Some tk"
    and "label_to_id s = Some l2i"
    and "getcol examples ''text'' = Inr texts"
    and "getcol examples ''label'' = Inr labels"
    and "tk \<lparr>text_arg = texts, text_pair_arg = None, padding_arg = PadMaxLength,
             truncation_arg = True, max_length_arg = Some 512\<rparr> = Inr enc"
  shows "(list_all (\<lambda>l. l \<in> fst ` set l2i) labels \<longrightarrow>
            tokenize_function s examples
              = Inr (AList.update ''label'' (map (\<lambda>l. I (int (the (map_of l2i l)))) labels) enc))
       \<and> (\<not> list_all (\<lambda>l. l \<in> fst ` set l2i) labels \<longrightarrow>
            (\<exists>l \<in> set labels. l \<notin> fst ` set l2i \<and> tokenize_function s examples = Inl (KeyError l)))"
proof (intro conjI impI)
  assume a: "list_all (\<lambda>l. l \<in> fst ` set l2i) labels"
  have "label_getitem (Some l2i) l = Inr (the (map_of l2i l))" if "l \<in> set labels" for l
  proof -
    from a that have "l \<in> fst ` set l2i" by (simp add: list_all_iff)
    then obtain i where "map_of l2i l = Some i"
      by (metis map_of_eq_None_iff not_Some_eq)
    then show ?thesis by (simp add: label_getitem_def)
  qed
  then have "mapM (label_getitem (Some l2i)) labels = Inr (map (\<lambda>l. the (map_of l2i l)) labels)"
    by (rule mapM_Inr)
  then show "tokenize_function s examples
      = Inr (AList.update ''label'' (map (\<lambda>l. I (int (the (map_of l2i l)))) labels) enc)"
    by (simp add: tokenize_function_def assms comp_def)
next
  assume "\<not> list_all (\<lambda>l. l \<in> fst ` set l2i) labels"
  then obtain l where l: "l \<in> set labels" "l \<notin> fst ` set l2i" by (auto simp: list_all_iff)
  then have "map_of l2i l = None" by (simp add: map_of_eq_None_iff)
  then have "isl (label_getitem (Some l2i) l)" by (simp add: label_getitem_def)
  with l(1) have "\<exists>x \<in> set labels. isl (label_getitem (Some l2i) x)" by blast
  from mapM_Inl[OF this] obtain z e where z: "z \<in> set labels"
    "label_getitem (Some l2i) z = Inl e" "mapM (label_getitem (Some l2i)) labels = Inl e"
    by blast
  from z(2) have "e = KeyError z \<and> map_of l2i z = None"
    by (auto simp: label_getitem_def split: option.splits)
  then have "z \<notin> fst ` set l2i" "e = KeyError z" by (simp_all add: map_of_eq_None_iff)
  then show "\<exists>l \<in> set labels. l \<notin> fst ` set l2i \<and> tokenize_function s examples = Inl (KeyError l)"
    using z(1,3) by (auto simp: tokenize_function_def assms)
qed

theorem tokenize_function_maps_labels_witness:
  "tokenize_function (demo_tuner\<lparr>label_to_id := Some [(S ''pos'', 0)]\<rparr>)
       [(''text'', [S ''ok'']), (''label'', [S ''pos''])]
     = Inr [(''input_ids'', [L (I 111 # I 107 # replicate 510 (I 0))]), (''label'', [I 0])]
   \<and> tokenize_function (demo_tuner\<lparr>label_to_id := Some [(S ''pos'', 0)]\<rparr>)
       [(''text'', [S ''ok'']), (''label'', [S ''neg''])]
     = Inl (KeyError (S ''neg''))"
proof -
  let ?s = "demo_tuner\<lparr>label_to_id := Some [(S ''pos'', 0)]\<rparr>"
  have t: "tokenizer ?s = Some demo_tokenizer" by (simp add: demo_tuner_def)
  have l: "label_to_id ?s = Some [(S ''pos'', 0)]" by simp
  have x1: "getcol [(''text'', [S ''ok'']), (''label'', [S ''pos''])] ''text'' = Inr [S ''ok'']"
    by (simp add: getcol_def)
  have y1: "getcol [(''text'', [S ''ok'']), (''label'', [S ''pos''])] ''label'' = Inr [S ''pos'']"
    by (simp add: getcol_def)
  have x2: "getcol [(''text'', [S ''ok'']), (''label'', [S ''neg''])] ''text'' = Inr [S ''ok'']"
    by (simp add: getcol_def)
  have y2: "getcol [(''text'', [S ''ok'']), (''label'', [S ''neg''])] ''label'' = Inr [S ''neg'']"
    by (simp add: getcol_def)
  have a: "tokenize_function ?s [(''text'', [S ''ok'']), (''label'', [S ''pos''])]
             = Inr [(''input_ids'', [L (I 111 # I 107 # replicate 510 (I 0))]), (''label'', [I 0])]"
    using tokenize_function_maps_labels[OF t l x1 y1 demo_tok_ok] by simp
  have b: "tokenize_function ?s [(''text'', [S ''ok'']), (''label'', [S ''neg''])]
             = Inl (KeyError (S ''neg''))"
    using tokenize_function_maps_labels[OF t l x2 y2 demo_tok_ok] by simp
  show ?thesis using a b by (rule conjI)
qed

text \<open>
  C6. With a tokenizer, on a batch that has the columns \<open>premise\<close>, \<open>hypothesis\<close> and
  \<open>label\<close>, the pairwise feature preparer calls the tokenizer on the premises paired with
  the hypotheses, with truncation and without padding; when that call succeeds, the result
  is the tokenizer's columns with the column \<open>labels\<close> holding the batch's \<open>label\<close> column
  unchanged.
\<close>

theorem prepare_train_features_spec:
  assumes "tokenizer s = Some tk"
    and "getcol examples ''premise'' = Inr premises"
    and "getcol examples ''hypothesis'' = Inr hypotheses"
    and "getcol examples ''label'' = Inr labels"
    and "tk \<lparr>text_arg = premises, text_pair_arg = Some hypotheses, padding_arg = PadFalse,
             truncation_arg = True, max_length_arg = None\<rparr> = Inr enc"
  shows "prepare_train_features s examples = Inr (AList.update ''labels'' labels enc)
       \<and> getcol (AList.update ''labels'' labels enc) ''labels'' = Inr labels"
proof
  show "prepare_train_features s examples = Inr (AList.update ''labels'' labels enc)"
    by (simp add: prepare_train_features_def assms)
  show "getcol (AList.update ''labels'' labels enc) ''labels'' = Inr labels"
    by (simp add: getcol_def update_conv')
qed

theorem prepare_train_features_spec_witness:
  "prepare_train_features demo_tuner
       [(''premise'', [S ''a'']), (''hypothesis'', [S ''b'']), (''label'', [I 1])]
     = Inr [(''input_ids'', [L [I 97, I 98]]), (''labels'', [I 1])]
   \<and> getcol [(''input_ids'', [L [I 97, I 98]]), (''labels'', [I 1])] ''labels'' = Inr [I 1]"
proof -
  let ?ex = "[(''premise'', [S ''a'']), (''hypothesis'', [S ''b'']), (''label'', [I 1])]"
  have t: "tokenizer demo_tuner = Some demo_tokenizer" by (simp add: demo_tuner_def)
  have p: "getcol ?ex ''premise'' = Inr [S ''a'']" by (simp add: getcol_def)
  have h: "getcol ?ex ''hypothesis'' = Inr [S ''b'']" by (simp add: getcol_def)
  have l: "getcol ?ex ''label'' = Inr [I 1]" by (simp add: getcol_def)
  show ?thesis
    using prepare_train_features_spec[OF t p h l demo_tok_pair] by simp
qed

text \<open>
  C7, as amended. In the pairwise task a missing tokenizer is raised by feature
  preparation, not when the load starts: the pairwise preparer raises
  \<open>Tokenizer not initialized\<close> on any batch; when per-file decoding and the conversion of
  the records succeed with a dataset that has a row, the loader raises that error with
  every entry already read; when per-file decoding or the conversion fails, the loader
  raises that failure instead; and with a snapshot that has a row, the loader raises
  \<open>Tokenizer not initialized\<close> once the snapshot is loaded.
\<close>

theorem missing_tokenizer_fails_in_feature_preparation:
  assumes "tokenizer s = None"
  shows "prepare_train_features s examples = Inl (Exception ''Tokenizer not initialized'')
       \<and> (\<not> isfile (Some entries) ''dataset_info.json'' \<longrightarrow>
            fst (read_files lb CommonsenseReasoning entries [] s) = Inr data \<longrightarrow>
            from_pandas lb data = Inr ds \<longrightarrow> 0 < nrows ds \<longrightarrow>
            load_dataset_cr lb (Some entries) s
              = (Inl (Exception ''Tokenizer not initialized''),
                 snd (read_files lb CommonsenseReasoning entries [] s)))
       \<and> (\<not> isfile (Some entries) ''dataset_info.json'' \<longrightarrow>
            fst (read_files lb CommonsenseReasoning entries [] s) = Inl e \<longrightarrow>
            fst (load_dataset_cr lb (Some entries) s) = Inl e)
       \<and> (\<not> isfile (Some entries) ''dataset_info.json'' \<longrightarrow>
            fst (read_files lb CommonsenseReasoning entries [] s) = Inr data \<longrightarrow>
            from_pandas lb data = Inl e \<longrightarrow>
            fst (load_dataset_cr lb (Some entries) s) = Inl e)
       \<and> (isfile dp ''dataset_info.json'' \<longrightarrow>
            load_from_disk lb (the dp) = Inr ds \<longrightarrow> 0 < nrows ds \<longrightarrow>
            load_dataset_cr lb dp s = (Inl (Exception ''Tokenizer not initialized''), s))"
proof -
  have a: "prepare_train_features s examples = Inl (Exception ''Tokenizer not initialized'')"
    using assms by (rule prepare_no_tokenizer)
  have b: "load_dataset_cr lb (Some entries) s
              = (Inl (Exception ''Tokenizer not initialized''),
                 snd (read_files lb CommonsenseReasoning entries [] s))"
    if "\<not> isfile (Some entries) ''dataset_info.json''"
      and "fst (read_files lb CommonsenseReasoning entries [] s) = Inr data"
      and "from_pandas lb data = Inr ds" and "0 < nrows ds"
    using assms that by (rule load_cr_no_tokenizer)
  have c: "fst (load_dataset_cr lb (Some entries) s) = Inl e"
    if "\<not> isfile (Some entries) ''dataset_info.json''"
      and "fst (read_files lb CommonsenseReasoning entries [] s) = Inl e"
    using that by (rule load_cr_decode_error)
  have d: "fst (load_dataset_cr lb (Some entries) s) = Inl e"
    if "\<not> isfile (Some entries) ''dataset_info.json''"
      and "fst (read_files lb CommonsenseReasoning entries [] s) = Inr data"
      and "from_pandas lb data = Inl e"
    using that by (rule load_cr_conversion_error)
  have f: "load_dataset_cr lb dp s = (Inl (Exception ''Tokenizer not initialized''), s)"
    if "isfile dp ''dataset_info.json''" and "load_from_disk lb (the dp) = Inr ds"
      and "0 < nrows ds"
    using assms that by (rule load_cr_snapshot_no_tokenizer)
  show ?thesis using a b c d f by blast
qed

theorem missing_tokenizer_fails_in_feature_preparation_witness:
  "prepare_train_features (demo_tuner\<lparr>tokenizer := None\<rparr>) []
     = Inl (Exception ''Tokenizer not initialized'')
   \<and> load_dataset_cr demo_lib
        (Some [(''train.jsonl'', File ''ok|pos\<newline>bad|neg\<newline>fine|pos'')])
        (demo_tuner\<lparr>tokenizer := None\<rparr>)
     = (Inl (Exception ''Tokenizer not initialized''),
        demo_tuner\<lparr>tokenizer := None, opened := [''train.jsonl'']\<rparr>)
   \<and> fst (load_dataset_cr demo_lib (Some [(''bad.json'', File ''{'')])
        (demo_tuner\<lparr>tokenizer := None\<rparr>))
     = Inl (DecodeError ''JSONDecodeError'')
   \<and> fst (load_dataset_cr (demo_lib\<lparr>from_pandas := (\<lambda>d. Inl (DecodeError ''ArrowInvalid''))\<rparr>)
        (Some [(''train.jsonl'', File ''ok|pos\<newline>bad|neg\<newline>fine|pos'')])
        (demo_tuner\<lparr>tokenizer := None\<rparr>))
     = Inl (DecodeError ''ArrowInvalid'')
   \<and> load_dataset_cr demo_lib
        (Some [(''dataset_info.json'', File ''{}''), (''bad.json'', File ''{'')])
        (demo_tuner\<lparr>tokenizer := None\<rparr>)
     = (Inl (Exception ''Tokenizer not initialized''), demo_tuner\<lparr>tokenizer := None\<rparr>)"
proof -
  let ?s = "demo_tuner\<lparr>tokenizer := None\<rparr>"
  let ?d = "[(''train.jsonl'', File ''ok|pos\<newline>bad|neg\<newline>fine|pos'')]"
  let ?bad = "[(''bad.json'', File ''{'')]"
  let ?snap = "[(''dataset_info.json'', File ''{}''), (''bad.json'', File ''{'')]"
  let ?lb = "demo_lib\<lparr>from_pandas := (\<lambda>d. Inl (DecodeError ''ArrowInvalid''))\<rparr>"
  let ?data = "[[(''text'', S ''ok''), (''label'', S ''pos'')],
             [(''text'', S ''bad''), (''label'', S ''neg'')],
             [(''text'', S ''fine''), (''label'', S ''pos'')]]"
  let ?ds = "[(''text'', [S ''ok'', S ''bad'', S ''fine'']),
            (''label'', [S ''pos'', S ''neg'', S ''pos''])]"
  let ?row = "[(''text'', [S ''ok'']), (''label'', [S ''pos''])]"
  have t: "tokenizer ?s = None" by simp
  have m: "\<not> isfile (Some ?d) ''dataset_info.json''" by (rule not_marker_train)
  have mb: "\<not> isfile (Some ?bad) ''dataset_info.json''" by (rule not_marker_bad)
  have ms: "isfile (Some ?snap) ''dataset_info.json''" by (rule snapshot_dir)
  have r: "fst (read_files demo_lib CommonsenseReasoning ?d [] ?s) = Inr ?data"
    by (simp add: decode_train)
  have r': "fst (read_files ?lb CommonsenseReasoning ?d [] ?s) = Inr ?data"
    by (simp add: decode_file_def endswith_def suffix_to_prefix with_open_def Let_def
          demo_lib_def demo_json_loads_def)
  have rb: "fst (read_files demo_lib CommonsenseReasoning ?bad [] ?s)
              = Inl (DecodeError ''JSONDecodeError'')"
    by (simp add: decode_bad_json)
  have fp: "from_pandas demo_lib ?data = Inr ?ds" by (rule from_pandas_train)
  have fp': "from_pandas ?lb ?data = Inl (DecodeError ''ArrowInvalid'')" by simp
  have n: "0 < nrows ?ds" by (simp add: nrows_def)
  have ld: "load_from_disk demo_lib (the (Some ?snap)) = Inr ?row" by (simp add: demo_lib_def)
  have nr: "0 < nrows ?row" by (simp add: nrows_def)
  have o: "snd (read_files demo_lib CommonsenseReasoning ?d [] ?s)
             = demo_tuner\<lparr>tokenizer := None, opened := [''train.jsonl'']\<rparr>"
    by (simp add: decode_train demo_tuner_def)
  note w1 = missing_tokenizer_fails_in_feature_preparation
              [where examples = "[]" and lb = demo_lib and entries = ?d and data = ?data
                 and ds = ?ds, OF t]
  note w2 = missing_tokenizer_fails_in_feature_preparation
              [where lb = demo_lib and entries = ?bad
                 and e = "DecodeError ''JSONDecodeError''", OF t]
  note w3 = missing_tokenizer_fails_in_feature_preparation
              [where lb = ?lb and entries = ?d and data = ?data
                 and e = "DecodeError ''ArrowInvalid''", OF t]
  note w4 = missing_tokenizer_fails_in_feature_preparation
              [where lb = demo_lib and dp = "Some ?snap" and ds = ?row, OF t]
  have a: "prepare_train_features ?s [] = Inl (Exception ''Tokenizer not initialized'')"
    using w1 by (rule conjunct1)
  have b: "load_dataset_cr demo_lib (Some ?d) ?s
             = (Inl (Exception ''Tokenizer not initialized''),
                snd (read_files demo_lib CommonsenseReasoning ?d [] ?s))"
    using w1 m r fp n by blast
  have c: "fst (load_dataset_cr demo_lib (Some ?bad) ?s) = Inl (DecodeError ''JSONDecodeError'')"
    using w2 mb rb by blast
  have d: "fst (load_dataset_cr ?lb (Some ?d) ?s) = Inl (DecodeError ''ArrowInvalid'')"
    using w3 m r' fp' by blast
  have f: "load_dataset_cr demo_lib (Some ?snap) ?s
             = (Inl (Exception ''Tokenizer not initialized''), ?s)"
    using w4 ms ld nr by blast
  show ?thesis
    using a b[unfolded o] c d f by (intro conjI)
qed

text \<open>
  C7 as stated fails: without a tokenizer, the commonsense loader on a directory with a
  malformed \<open>bad.json\<close> opens that file and raises the decoder's error, not a
  configuration error; the classification loader on a well-formed \<open>train.jsonl\<close> reads
  the file, stores the new label index on the model, and only then fails in feature
  preparation.
\<close>

theorem tokenizer_error_not_immediate_counterexample:
  "tokenizer (demo_tuner\<lparr>tokenizer := None\<rparr>) = None
   \<and> load_dataset_cr demo_lib (Some [(''bad.json'', File ''{'')]) (demo_tuner\<lparr>tokenizer := None\<rparr>)
       = (Inl (DecodeError ''JSONDecodeError''),
          demo_tuner\<lparr>tokenizer := None, opened := [''bad.json'']\<rparr>)
   \<and> fst (load_dataset demo_lib (Some [(''train.jsonl'', File ''ok|pos\<newline>bad|neg'')])
          (demo_tuner\<lparr>tokenizer := None\<rparr>))
       = Inl (TypeError ''NoneType object is not callable'')
   \<and> opened (snd (load_dataset demo_lib (Some [(''train.jsonl'', File ''ok|pos\<newline>bad|neg'')])
          (demo_tuner\<lparr>tokenizer := None\<rparr>))) = [''train.jsonl'']
   \<and> map_option label2id
       (model (snd (load_dataset demo_lib (Some [(''train.jsonl'', File ''ok|pos\<newline>bad|neg'')])
          (demo_tuner\<lparr>tokenizer := None\<rparr>)))) = Some [(S ''pos'', 0), (S ''neg'', 1)]"
proof -
  have "tokenizer (demo_tuner\<lparr>tokenizer := None\<rparr>) = None" by simp
  then show ?thesis
    using load_cr_bad_json_no_tokenizer load_two_no_tokenizer_error load_two_no_tokenizer_opened
      load_two_no_tokenizer_labels
    by (intro conjI)
qed

text \<open>
  C10. On the snapshot path of the classification loader the label index in use is the
  \<open>label2id\<close> the model configuration held at the call, or \<open>None\<close> without a model or
  with an empty \<open>label2id\<close>; the model configuration is left as it was; and with \<open>None\<close>,
  a snapshot that has a row (all columns of one length) makes the load fail, the index
  staying \<open>None\<close>.
\<close>

theorem snapshot_path_keeps_config_labels:
  assumes "isfile dp ''dataset_info.json''"
  shows "label_to_id (snd (load_dataset lb dp s))
           = (case model s of
                None \<Rightarrow> None
              | Some cfg \<Rightarrow> (if label2id cfg \<noteq> [] then Some (label2id cfg) else None))
       \<and> model (snd (load_dataset lb dp s)) = model s
       \<and> ((model s = None \<or> (\<exists>cfg. model s = Some cfg \<and> label2id cfg = [])) \<longrightarrow>
            load_from_disk lb (the dp) = Inr ds \<longrightarrow> 0 < nrows ds \<longrightarrow>
            list_all (\<lambda>(k, vs). length vs = nrows ds) ds \<longrightarrow>
            isl (fst (load_dataset lb dp s)) \<and> label_to_id (snd (load_dataset lb dp s)) = None)"
proof -
  let ?s2 = "s\<lparr>data_collator := Some (tokenizer s), label_to_id := initial_label_to_id s\<rparr>"
  have st: "snd (load_dataset lb dp s) = ?s2"
    by (simp add: load_dataset_snapshot[OF assms] Let_def split: sum.splits)
  have a: "label_to_id (snd (load_dataset lb dp s))
           = (case model s of
                None \<Rightarrow> None
              | Some cfg \<Rightarrow> (if label2id cfg \<noteq> [] then Some (label2id cfg) else None))"
    by (simp add: st initial_label_to_id_def)
  have b: "model (snd (load_dataset lb dp s)) = model s" by (simp add: st)
  have c: "isl (fst (load_dataset lb dp s)) \<and> label_to_id (snd (load_dataset lb dp s)) = None"
    if no: "model s = None \<or> (\<exists>cfg. model s = Some cfg \<and> label2id cfg = [])"
      and ld: "load_from_disk lb (the dp) = Inr ds" and n: "0 < nrows ds"
      and rect: "list_all (\<lambda>(k, vs). length vs = nrows ds) ds"
  proof -
    have i: "initial_label_to_id s = None" using no by (auto simp: initial_label_to_id_def)
    then have "label_to_id ?s2 = None" by simp
    then have "isl (tokenize_function ?s2 (slice 0 1000 ds))"
      using rectangular_slice_label[OF n rect] by (rule tokenize_no_index)
    from map_batched_first_isl[where f = "tokenize_function ?s2" and lb = lb, OF n this]
    have "isl (fst (load_dataset lb dp s))"
      by (simp add: load_dataset_snapshot[OF assms] Let_def ld)
    then show ?thesis using i by (simp add: st)
  qed
  show ?thesis using a b c by blast
qed

theorem snapshot_path_keeps_config_labels_witness:
  "label_to_id (snd (load_dataset demo_lib (Some [(''dataset_info.json'', File ''{}'')])
       (demo_tuner\<lparr>model := None\<rparr>))) = None
   \<and> model (snd (load_dataset demo_lib (Some [(''dataset_info.json'', File ''{}'')])
       (demo_tuner\<lparr>model := None\<rparr>))) = None
   \<and> isl (fst (load_dataset demo_lib (Some [(''dataset_info.json'', File ''{}'')])
       (demo_tuner\<lparr>model := None\<rparr>)))"
proof -
  let ?dp = "Some [(''dataset_info.json'', File ''{}'')]"
  let ?ds = "[(''text'', [S ''ok'']), (''label'', [S ''pos''])]"
  have a: "isfile ?dp ''dataset_info.json''" by (simp add: isfile_def)
  have m: "model (demo_tuner\<lparr>model := None\<rparr>) = None" by simp
  have l: "load_from_disk demo_lib (the ?dp) = Inr ?ds" by (simp add: demo_lib_def)
  have n: "0 < nrows ?ds" by (simp add: nrows_def)
  have r: "list_all (\<lambda>(k, vs). length vs = nrows ?ds) ?ds" by (simp add: nrows_def)
  show ?thesis
    using snapshot_path_keeps_config_labels[OF a, of demo_lib "demo_tuner\<lparr>model := None\<rparr>" ?ds]
      m l n r
    by simp
qed

end
